theory Spec2Isabelle
  imports Complex_Main
begin

section \<open>Quasi-static r-z wakefield solver: embedding of \<open>solver.py\<close>\<close>

text \<open>
  The solver works on NumPy arrays of 64-bit floats. Arrays are lists, two-dimensional
  arrays are lists of rows, and a float is a \<^typ>\<open>real\<close>: rounding, infinities and NaN are
  abstracted away, so every arithmetic statement below is one of exact real arithmetic.
  An exception of the source is a value \<open>Inl e\<close> of the result type.
\<close>

datatype error = ZeroDivisionError | IndexError | ValueError string

type_synonym array = "real list"
type_synonym array2 = "real list list"

text \<open>A \<open>for\<close> loop whose body may raise: the first exception ends the loop.\<close>

primrec for_each :: "('i \<Rightarrow> 's \<Rightarrow> error + 's) \<Rightarrow> 'i list \<Rightarrow> 's \<Rightarrow> error + 's" where
  "for_each body [] s = Inr s"
| "for_each body (i # is) s =
     (case body i s of Inl e \<Rightarrow> Inl e | Inr s' \<Rightarrow> for_each body is s')"

subsection \<open>\<open>update_gamma_and_pz\<close>\<close>

text \<open>
  One pass of the loop body of \<open>update_gamma_and_pz\<close> at index \<open>i\<close>. The function is
  compiled by \<open>@njit\<close> with the default error model, under which a float division by zero
  raises \<open>ZeroDivisionError\<close>; both lines divide by \<open>2 * (1 + psi[i])\<close>. An index outside an
  array is reported as \<open>IndexError\<close>, as the uncompiled Python would. The five arrays are
  five different arrays, as they are at the call in \<open>calculate_wakefields\<close>.
\<close>

definition gamma_pz_body :: "array \<Rightarrow> array \<Rightarrow> array \<Rightarrow> nat \<Rightarrow> array \<times> array \<Rightarrow> error + array \<times> array" where
  "gamma_pz_body pr a2 psi i gp =
     (case gp of (gamma, pz) \<Rightarrow>
        if \<not> (i < length pr \<and> i < length a2 \<and> i < length psi) then Inl IndexError
        else if 2 * (1 + psi ! i) = 0 then Inl ZeroDivisionError
        else if \<not> i < length gamma then Inl IndexError
        else if \<not> i < length pz then Inl IndexError
        else Inr (gamma[i := (1 + (pr ! i)\<^sup>2 + a2 ! i + (1 + psi ! i)\<^sup>2) / (2 * (1 + psi ! i))],
                  pz[i := (1 + (pr ! i)\<^sup>2 + a2 ! i - (1 + psi ! i)\<^sup>2) / (2 * (1 + psi ! i))]))"

definition update_gamma_and_pz :: "array \<Rightarrow> array \<Rightarrow> array \<Rightarrow> array \<Rightarrow> array \<Rightarrow> error + array \<times> array" where
  "update_gamma_and_pz gamma pz pr a2 psi =
     for_each (gamma_pz_body pr a2 psi) [0..<length pr] (gamma, pz)"

subsection \<open>NumPy operations used by the solver\<close>

text \<open>Sequencing of computations that may raise.\<close>

fun bind_err :: "error + 'a \<Rightarrow> ('a \<Rightarrow> error + 'b) \<Rightarrow> error + 'b" where
  "bind_err (Inl e) f = Inl e"
| "bind_err (Inr x) f = f x"

text \<open>\<open>np.zeros((m, n))\<close>: a negative dimension is refused.\<close>

definition np_zeros2 :: "int \<Rightarrow> int \<Rightarrow> error + array2" where
  "np_zeros2 m n =
     (if m < 0 \<or> n < 0 then Inl (ValueError ''negative dimensions are not allowed'')
      else Inr (replicate (nat m) (replicate (nat n) 0)))"

text \<open>Python indexing \<open>xs[i]\<close>: a negative index counts from the end.\<close>

definition py_index :: "nat \<Rightarrow> int \<Rightarrow> nat option" where
  "py_index n i =
     (let j = (if i < 0 then int n + i else i)
      in if 0 \<le> j \<and> j < int n then Some (nat j) else None)"

definition py_get :: "'a list \<Rightarrow> int \<Rightarrow> error + 'a" where
  "py_get xs i = (case py_index (length xs) i of None \<Rightarrow> Inl IndexError | Some k \<Rightarrow> Inr (xs ! k))"

text \<open>The slice \<open>xs[2:-2]\<close>, which removes two guard cells on each side, and
  \<open>a[2:-2, 2:-2]\<close> on a two-dimensional array.\<close>

definition slice_2_m2 :: "'a list \<Rightarrow> 'a list" where
  "slice_2_m2 xs = take (length xs - 4) (drop 2 xs)"

definition interior_cells :: "array2 \<Rightarrow> array2" where
  "interior_cells a = map slice_2_m2 (slice_2_m2 a)"

text \<open>Broadcasting along one axis: a source of the target's length is taken as it is, a
  source of length one is repeated, anything else is refused.\<close>

definition broadcast_to :: "nat \<Rightarrow> 'a list \<Rightarrow> 'a list option" where
  "broadcast_to n vs =
     (if length vs = n then Some vs
      else if length vs = 1 then Some (replicate n (hd vs))
      else None)"

definition set_slice_2_m2 :: "'a list \<Rightarrow> 'a list \<Rightarrow> 'a list" where
  "set_slice_2_m2 xs vs =
     (if length xs < 4 then xs else take 2 xs @ vs @ drop (length xs - 2) xs)"

text \<open>The assignment \<open>a[2:-2, 2:-2] = b\<close>.\<close>

definition set_interior :: "array2 \<Rightarrow> array2 \<Rightarrow> error + array2" where
  "set_interior a b =
     (let rows = slice_2_m2 a in
      case broadcast_to (length rows) b of
        None \<Rightarrow> Inl (ValueError ''could not broadcast input array'')
      | Some b' \<Rightarrow>
          if list_all2 (\<lambda>row v. broadcast_to (length row - 4) v \<noteq> None) rows b'
          then Inr (set_slice_2_m2 a
                 (map2 (\<lambda>row v. set_slice_2_m2 row (the (broadcast_to (length row - 4) v))) rows b'))
          else Inl (ValueError ''could not broadcast input array''))"

text \<open>The assignment \<open>a[j, 2:-2] = v\<close> of one row.\<close>

definition set_row_interior :: "array2 \<Rightarrow> int \<Rightarrow> array \<Rightarrow> error + array2" where
  "set_row_interior a j v =
     (case py_index (length a) j of
        None \<Rightarrow> Inl IndexError
      | Some k \<Rightarrow>
          (case broadcast_to (length (a ! k) - 4) v of
             None \<Rightarrow> Inl (ValueError ''could not broadcast input array'')
           | Some v' \<Rightarrow> Inr (a[k := set_slice_2_m2 (a ! k) v'])))"

text \<open>\<open>np.linspace(start, stop, num)\<close>.\<close>

definition np_linspace :: "real \<Rightarrow> real \<Rightarrow> int \<Rightarrow> error + array" where
  "np_linspace start stop num =
     (if num < 0 then Inl (ValueError ''Number of samples must be non-negative.'')
      else Inr (map (\<lambda>k. start + real k * ((stop - start) / real_of_int (num - 1))) [0..<nat num]))"

text \<open>\<open>np.cumsum\<close> along a row.\<close>

fun cumsum_from :: "real \<Rightarrow> array \<Rightarrow> array" where
  "cumsum_from acc [] = []"
| "cumsum_from acc (x # xs) = (acc + x) # cumsum_from (acc + x) xs"

definition np_cumsum :: "array \<Rightarrow> array" where
  "np_cumsum xs = cumsum_from 0 xs"

text \<open>
  \<open>np.gradient(f, h, edge_order=2)\<close> along one axis with uniform spacing \<open>h\<close>, on the
  samples \<open>g 0, ..., g (n - 1)\<close>: central differences inside, the second-order one-sided
  formulas at both ends.
\<close>

definition gradient_at :: "real \<Rightarrow> (nat \<Rightarrow> real) \<Rightarrow> nat \<Rightarrow> nat \<Rightarrow> real" where
  "gradient_at h g n j =
     (if j = 0 then (- 1.5 / h) * g 0 + (2 / h) * g 1 + (- 0.5 / h) * g 2
      else if j = n - 1 then (0.5 / h) * g (n - 3) + (- 2 / h) * g (n - 2) + (1.5 / h) * g (n - 1)
      else (g (j + 1) - g (j - 1)) / (2 * h))"

text \<open>\<open>np.gradient(f, dxi, dr, edge_order=2)\<close> on a two-dimensional array: the pair of the
  gradients along axis 0 and along axis 1. An axis with fewer than three samples is refused.\<close>

definition np_gradient2 :: "array2 \<Rightarrow> real \<Rightarrow> real \<Rightarrow> error + array2 \<times> array2" where
  "np_gradient2 f h0 h1 =
     (if length f < 3 \<or> (\<exists>row \<in> set f. length row < 3)
      then Inl (ValueError ''Shape of array too small to calculate a numerical gradient, at least (edge_order + 1) elements are required.'')
      else Inr (map (\<lambda>j. map (\<lambda>k. gradient_at h0 (\<lambda>m. f ! m ! k) (length f) j) [0..<length (f ! j)])
                   [0..<length f],
                map (\<lambda>row. map (gradient_at h1 (\<lambda>m. row ! m) (length row)) [0..<length row]) f))"

text \<open>Element-wise binary operation of two one-dimensional arrays, with broadcasting.\<close>

definition np_binop :: "(real \<Rightarrow> real \<Rightarrow> real) \<Rightarrow> array \<Rightarrow> array \<Rightarrow> error + array" where
  "np_binop f xs ys =
     (if length xs = length ys then Inr (map2 f xs ys)
      else if length xs = 1 then Inr (map (f (hd xs)) ys)
      else if length ys = 1 then Inr (map (\<lambda>x. f x (hd ys)) xs)
      else Inl (ValueError ''operands could not be broadcast together''))"

text \<open>The assignment \<open>xs[idx] = v\<close> with an array of indices.\<close>

definition set_at_indices :: "array \<Rightarrow> nat list \<Rightarrow> real \<Rightarrow> error + array" where
  "set_at_indices xs idx v =
     (if \<forall>i \<in> set idx. i < length xs then Inr (foldl (\<lambda>a i. a[i := v]) xs idx)
      else Inl IndexError)"

text \<open>Element-wise sum of two two-dimensional arrays of the same shape.\<close>

definition np_add2 :: "array2 \<Rightarrow> array2 \<Rightarrow> error + array2" where
  "np_add2 a b =
     (if map length a = map length b then Inr (map2 (map2 (+)) a b)
      else Inl (ValueError ''operands could not be broadcast together''))"

subsection \<open>Plasma particles and the collaborators of the solver\<close>

text \<open>
  Modelled from the spec: the class \<open>PlasmaParticles\<close>, which is defined outside
  \<open>solver.py\<close> (a struct of arrays in storage order, with the derived field values of the
  slice and the history of the multistep pusher). The record has the
  attributes that the solver reads or writes (\<open>pp.r\<close>, \<open>pp.pr\<close>, \<open>pp.pz\<close>, \<open>pp.gamma\<close>,
  \<open>pp.q\<close>, \<open>pp.r_max_plasma\<close>, \<open>pp.dr_p\<close>, \<open>pp.parabolic_coefficient\<close>), the seven
  field arrays handed out by \<open>pp.get_field_arrays()\<close>, and the history kept for the
  multistep pusher.
\<close>

record plasma_particles =
  pp_r :: array
  pp_pr :: array
  pp_pz :: array
  pp_gamma :: array
  pp_q :: array
  pp_r_max_plasma :: real
  pp_dr_p :: real
  pp_parabolic_coefficient :: real
  a2_pp :: array
  nabla_a2_pp :: array
  b_theta_0_pp :: array
  b_theta_pp :: array
  psi_pp :: array
  dr_psi_pp :: array
  dxi_psi_pp :: array
  pusher_history :: array2

text \<open>
  Modelled from the spec: the functions that \<open>solver.py\<close> imports from other modules
  (source gathering, the potential and magnetic-field solvers, the two pushers, the two
  depositions, the radial gradient, the constructor of the particles, the skin depth) and
  from NumPy and SciPy (\<open>argsort\<close>, the constants \<open>ct.e\<close> and \<open>np.pi\<close>) are parameters of
  the model. Each takes the arguments of the call in \<open>solver.py\<close>, in the same order,
  returns normally, and returns the new contents of the arrays that the spec says it
  writes; an array that a collaborator updates in place is both an argument and a result.
\<close>

record externals =
  plasma_skin_depth :: "real \<Rightarrow> real"
  ct_e :: real
  np_pi :: real
  new_plasma_particles :: "real \<Rightarrow> real \<Rightarrow> real \<Rightarrow> real \<Rightarrow> int \<Rightarrow> string \<Rightarrow> plasma_particles"
  radial_gradient :: "array2 \<Rightarrow> real \<Rightarrow> array2"
  deposit_3d_distribution ::
    "array \<Rightarrow> array \<Rightarrow> array \<Rightarrow> array \<Rightarrow> real \<Rightarrow> real \<Rightarrow> int \<Rightarrow> int \<Rightarrow> real \<Rightarrow> real \<Rightarrow>
     array2 \<Rightarrow> string \<Rightarrow> bool \<Rightarrow> array2"
  gather_sources_qs_baxevanis ::
    "array2 \<Rightarrow> array2 \<Rightarrow> array2 \<Rightarrow> real \<Rightarrow> real \<Rightarrow> real \<Rightarrow> real \<Rightarrow> real \<Rightarrow> real \<Rightarrow> array \<Rightarrow> real \<Rightarrow>
     array \<Rightarrow> array \<Rightarrow> array \<Rightarrow> array \<times> array \<times> array"
  argsort :: "array \<Rightarrow> nat list"
  calculate_psi_and_derivatives_at_particles ::
    "array \<Rightarrow> array \<Rightarrow> array \<Rightarrow> nat list \<Rightarrow> real \<Rightarrow> real \<Rightarrow> real \<Rightarrow>
     array \<Rightarrow> array \<Rightarrow> array \<Rightarrow> array \<times> array \<times> array"
  calculate_b_theta_at_particles ::
    "array \<Rightarrow> array \<Rightarrow> array \<Rightarrow> array \<Rightarrow> array \<Rightarrow> array \<Rightarrow> array \<Rightarrow> array \<Rightarrow> array \<Rightarrow>
     nat list \<Rightarrow> real \<Rightarrow> array \<Rightarrow> array"
  calculate_psi :: "array \<Rightarrow> array \<Rightarrow> array \<Rightarrow> nat list \<Rightarrow> real \<Rightarrow> real \<Rightarrow> array"
  calculate_b_theta ::
    "array \<Rightarrow> array \<Rightarrow> array \<Rightarrow> array \<Rightarrow> array \<Rightarrow> array \<Rightarrow> array \<Rightarrow> array \<Rightarrow> array \<Rightarrow> array \<Rightarrow>
     nat list \<Rightarrow> array"
  deposit_plasma_particles ::
    "real \<Rightarrow> array \<Rightarrow> array \<Rightarrow> real \<Rightarrow> real \<Rightarrow> int \<Rightarrow> int \<Rightarrow> real \<Rightarrow> real \<Rightarrow> array2 \<Rightarrow> string \<Rightarrow> array2"
  evolve_plasma_ab5 :: "plasma_particles \<Rightarrow> real \<Rightarrow> plasma_particles"
  evolve_plasma_rk4 ::
    "plasma_particles \<Rightarrow> real \<Rightarrow> real \<Rightarrow> array2 \<Rightarrow> array2 \<Rightarrow> array2 \<Rightarrow> array \<Rightarrow> array \<Rightarrow>
     plasma_particles"

subsection \<open>\<open>calculate_beam_source_from_particles\<close>\<close>

text \<open>The statement \<open>subs[:, 0] += q_dist[:, 0]/4\<close>; column 0 does not exist in an array
  without columns.\<close>

definition add_quarter_of_first :: "int \<Rightarrow> array2 \<Rightarrow> array2 \<Rightarrow> error + array2" where
  "add_quarter_of_first n_r subs q_dist =
     (if n_r \<le> 0 then Inl IndexError
      else Inr (map2 (\<lambda>s qrow. s[0 := s ! 0 + qrow ! 0 / 4]) subs q_dist))"

text \<open>The expression \<open>(np.cumsum(q_dist, axis=1) - subs) * dr / np.abs(r_grid_g)\<close>, in
  which the row of radii is broadcast over the rows of the grid.\<close>

definition integrate_field :: "array2 \<Rightarrow> array2 \<Rightarrow> real \<Rightarrow> array \<Rightarrow> error + array2" where
  "integrate_field q_dist subs dr r_grid_g =
     (if (\<forall>row \<in> set q_dist. length row = length r_grid_g) \<and> map length subs = map length q_dist
      then Inr (map2 (\<lambda>qrow s. map (\<lambda>(c, s', rg). (c - s') * dr / \<bar>rg\<bar>)
                                  (zip (np_cumsum qrow) (zip s r_grid_g))) q_dist subs)
      else Inl (ValueError ''operands could not be broadcast together''))"

text \<open>The first part of the function, up to \<open>q_dist = q_dist[2:-2, 2:-2]\<close>: the weights of
  the beam particles and their deposition, without the guard cells.\<close>

definition deposit_beam_charge ::
  "externals \<Rightarrow> array \<Rightarrow> array \<Rightarrow> array \<Rightarrow> array \<Rightarrow> real \<Rightarrow> int \<Rightarrow> int \<Rightarrow> real \<Rightarrow> real \<Rightarrow> real \<Rightarrow> real \<Rightarrow>
   string \<Rightarrow> error + array2" where
  "deposit_beam_charge ext x y xi q n_p n_r n_xi r_min xi_min dr dxi p_shape =
     (let s_d = plasma_skin_depth ext (n_p / 1000000);
          xi_n = map (\<lambda>v. v / s_d) xi;
          x_n = map (\<lambda>v. v / s_d) x;
          y_n = map (\<lambda>v. v / s_d) y;
          w = map (\<lambda>v. - v / ct_e ext / (2 * np_pi ext * dr * dxi * s_d ^ 3 * n_p)) q
      in bind_err (np_zeros2 (n_xi + 4) (n_r + 4)) (\<lambda>q_dist.
           Inr (interior_cells
                  (deposit_3d_distribution ext xi_n x_n y_n w xi_min r_min n_xi n_r dxi dr
                     q_dist p_shape True))))"

text \<open>The second part: the field array, the radii of the cell centres, the half-cell and
  quarter-cell corrections, and the integration.\<close>

definition beam_field_from_charge :: "int \<Rightarrow> int \<Rightarrow> real \<Rightarrow> array2 \<Rightarrow> error + array2" where
  "beam_field_from_charge n_r n_xi dr q_dist =
     bind_err (np_zeros2 (n_xi + 4) (n_r + 4)) (\<lambda>b_theta.
       let r_grid_g = map (\<lambda>k. (0.5 + real k) * dr) [0..<nat n_r];
           subs = map (map (\<lambda>v. v / 2)) q_dist
       in bind_err (add_quarter_of_first n_r subs q_dist) (\<lambda>subs.
          bind_err (integrate_field q_dist subs dr r_grid_g) (\<lambda>field.
          set_interior b_theta field)))"

definition calculate_beam_source_from_particles ::
  "externals \<Rightarrow> array \<Rightarrow> array \<Rightarrow> array \<Rightarrow> array \<Rightarrow> real \<Rightarrow> int \<Rightarrow> int \<Rightarrow> real \<Rightarrow> real \<Rightarrow> real \<Rightarrow> real \<Rightarrow>
   string \<Rightarrow> error + array2" where
  "calculate_beam_source_from_particles ext x y xi q n_p n_r n_xi r_min xi_min dr dxi p_shape =
     bind_err (deposit_beam_charge ext x y xi q n_p n_r n_xi r_min xi_min dr dxi p_shape)
       (beam_field_from_charge n_r n_xi dr)"

text \<open>An array of \<open>m\<close> rows and \<open>n\<close> columns.\<close>

definition has_shape :: "array2 \<Rightarrow> nat \<Rightarrow> nat \<Rightarrow> bool" where
  "has_shape a m n \<longleftrightarrow> length a = m \<and> (\<forall>row \<in> set a. length row = n)"

subsection \<open>The main loop of \<open>calculate_wakefields\<close>\<close>

text \<open>
  The local variables of \<open>calculate_wakefields\<close> that stay fixed during the main loop, and
  those that the loop updates: the particles and the grids with their guard cells.
\<close>

record sweep_env =
  env_a2_rz :: array2
  env_nabla_a2_rz :: array2
  env_b_theta_0_mesh :: array2
  env_xi_fld :: array
  env_r_fld :: array
  env_dxi :: real
  env_dr :: real
  env_xi_min :: real
  env_n_xi :: int
  env_n_r :: int
  env_p_shape :: string
  env_max_gamma :: real
  env_plasma_pusher :: string

record sweep_state =
  particles :: plasma_particles
  rho_grid :: array2
  chi_grid :: array2
  psi_grid :: array2
  W_r_grid :: array2
  E_z_grid :: array2
  b_theta_bar_grid :: array2

text \<open>Gather the source terms at the particles (call of \<open>gather_sources_qs_baxevanis\<close>).\<close>

definition gather_sources :: "externals \<Rightarrow> sweep_env \<Rightarrow> real \<Rightarrow> plasma_particles \<Rightarrow> error + plasma_particles" where
  "gather_sources ext env xi pp =
     bind_err (py_get (env_xi_fld env) 0) (\<lambda>xi_first.
     bind_err (py_get (env_xi_fld env) (- 1)) (\<lambda>xi_last.
     bind_err (py_get (env_r_fld env) 0) (\<lambda>r_first.
     bind_err (py_get (env_r_fld env) (- 1)) (\<lambda>r_last.
       case gather_sources_qs_baxevanis ext (env_a2_rz env) (env_nabla_a2_rz env)
              (env_b_theta_0_mesh env) xi_first xi_last r_first r_last (env_dxi env) (env_dr env)
              (pp_r pp) xi (a2_pp pp) (nabla_a2_pp pp) (b_theta_0_pp pp)
       of (a2, nabla_a2, b_theta_0) \<Rightarrow>
         Inr (pp\<lparr>a2_pp := a2, nabla_a2_pp := nabla_a2, b_theta_0_pp := b_theta_0\<rparr>)))))"

text \<open>Potential and derivatives at the particles, in the radial order \<open>idx\<close>.\<close>

definition solve_psi_at_particles :: "externals \<Rightarrow> nat list \<Rightarrow> plasma_particles \<Rightarrow> plasma_particles" where
  "solve_psi_at_particles ext idx pp =
     (case calculate_psi_and_derivatives_at_particles ext (pp_r pp) (pp_pr pp) (pp_q pp) idx
             (pp_r_max_plasma pp) (pp_dr_p pp) (pp_parabolic_coefficient pp)
             (psi_pp pp) (dr_psi_pp pp) (dxi_psi_pp pp)
      of (psi, dr_psi, dxi_psi) \<Rightarrow> pp\<lparr>psi_pp := psi, dr_psi_pp := dr_psi, dxi_psi_pp := dxi_psi\<rparr>)"

text \<open>The call \<open>update_gamma_and_pz(pp.gamma, pp.pz, pp.pr, a2_pp, psi_pp)\<close>.\<close>

definition update_particles :: "plasma_particles \<Rightarrow> error + plasma_particles" where
  "update_particles pp =
     bind_err (update_gamma_and_pz (pp_gamma pp) (pp_pz pp) (pp_pr pp) (a2_pp pp) (psi_pp pp))
       (\<lambda>(gamma, pz). Inr (pp\<lparr>pp_gamma := gamma, pp_pz := pz\<rparr>))"

definition solve_b_theta_at_particles :: "externals \<Rightarrow> nat list \<Rightarrow> plasma_particles \<Rightarrow> plasma_particles" where
  "solve_b_theta_at_particles ext idx pp =
     pp\<lparr>b_theta_pp := calculate_b_theta_at_particles ext (pp_r pp) (pp_pr pp) (pp_q pp) (pp_gamma pp)
            (psi_pp pp) (dr_psi_pp pp) (dxi_psi_pp pp) (b_theta_0_pp pp) (nabla_a2_pp pp) idx
            (pp_dr_p pp) (b_theta_pp pp)\<rparr>"

text \<open>
  The freeze step: \<open>idx_keep = np.where(pp.gamma >= max_gamma)\<close>, and, when it is not empty,
  the three assignments to \<open>pp.pz\<close>, \<open>pp.gamma\<close> and \<open>pp.pr\<close> at these indices.
\<close>

definition where_ge :: "array \<Rightarrow> real \<Rightarrow> nat list" where
  "where_ge xs v = filter (\<lambda>i. xs ! i \<ge> v) [0..<length xs]"

definition freeze :: "real \<Rightarrow> plasma_particles \<Rightarrow> error + plasma_particles" where
  "freeze max_gamma pp =
     (let idx_keep = where_ge (pp_gamma pp) max_gamma in
      if length idx_keep > 0 then
        bind_err (set_at_indices (pp_pz pp) idx_keep 0) (\<lambda>pz.
        bind_err (set_at_indices (pp_gamma pp) idx_keep 1) (\<lambda>gamma.
        bind_err (set_at_indices (pp_pr pp) idx_keep 0) (\<lambda>pr.
          Inr (pp\<lparr>pp_pz := pz, pp_gamma := gamma, pp_pr := pr\<rparr>))))
      else Inr pp)"

text \<open>The particle part of one slice, from the gather to the freeze step; the result is
  the radial order of the slice with the particles after the freeze.\<close>

definition solve_particles ::
  "externals \<Rightarrow> sweep_env \<Rightarrow> real \<Rightarrow> plasma_particles \<Rightarrow> error + nat list \<times> plasma_particles" where
  "solve_particles ext env xi pp =
     bind_err (gather_sources ext env xi pp) (\<lambda>pp.
     let idx = argsort ext (pp_r pp);
         pp = solve_psi_at_particles ext idx pp
     in bind_err (update_particles pp) (\<lambda>pp.
        let pp = solve_b_theta_at_particles ext idx pp
        in bind_err (freeze (env_max_gamma env) pp) (\<lambda>pp. Inr (idx, pp))))"

text \<open>The deposition weights \<open>w_rho = pp.q / (dr * pp.r * (1 - pp.pz/pp.gamma))\<close> and
  \<open>w_chi = w_rho / pp.gamma\<close>.\<close>

definition plasma_weights :: "real \<Rightarrow> plasma_particles \<Rightarrow> error + array \<times> array" where
  "plasma_weights dr pp =
     bind_err (np_binop (/) (pp_pz pp) (pp_gamma pp)) (\<lambda>v.
     bind_err (np_binop (*) (map (\<lambda>r. dr * r) (pp_r pp)) (map (\<lambda>u. 1 - u) v)) (\<lambda>d.
     bind_err (np_binop (/) (pp_q pp) d) (\<lambda>w_rho.
     bind_err (np_binop (/) w_rho (pp_gamma pp)) (\<lambda>w_chi.
       Inr (w_rho, w_chi)))))"

text \<open>Everything one slice does before the particles are pushed: the particle part, the two
  rows written to the grids of \<open>psi\<close> and \<open>b_theta_bar\<close>, and the two depositions.\<close>

definition slice_fields :: "externals \<Rightarrow> sweep_env \<Rightarrow> nat \<Rightarrow> sweep_state \<Rightarrow> error + real \<times> sweep_state" where
  "slice_fields ext env step st =
     (let i = - 1 - int step in
      bind_err (py_get (env_xi_fld env) i) (\<lambda>xi.
      bind_err (solve_particles ext env xi (particles st)) (\<lambda>(idx, pp).
      bind_err (set_row_interior (psi_grid st) (i - 2)
                  (calculate_psi ext (env_r_fld env) (pp_r pp) (pp_q pp) idx (pp_r_max_plasma pp)
                     (pp_parabolic_coefficient pp))) (\<lambda>psi.
      bind_err (set_row_interior (b_theta_bar_grid st) (i - 2)
                  (calculate_b_theta ext (env_r_fld env) (pp_r pp) (pp_pr pp) (pp_q pp) (pp_gamma pp)
                     (psi_pp pp) (dr_psi_pp pp) (dxi_psi_pp pp) (b_theta_0_pp pp) (nabla_a2_pp pp)
                     idx)) (\<lambda>b_theta_bar.
      bind_err (plasma_weights (env_dr env) pp) (\<lambda>(w_rho, w_chi).
      bind_err (py_get (env_r_fld env) 0) (\<lambda>r_first.
        Inr (xi, st\<lparr>particles := pp, psi_grid := psi, b_theta_bar_grid := b_theta_bar,
               rho_grid := deposit_plasma_particles ext xi (pp_r pp) w_rho (env_xi_min env) r_first
                  (env_n_xi env) (env_n_r env) (env_dxi env) (env_dr env) (rho_grid st)
                  (env_p_shape env),
               chi_grid := deposit_plasma_particles ext xi (pp_r pp) w_chi (env_xi_min env) r_first
                  (env_n_xi env) (env_n_r env) (env_dxi env) (env_dr env) (chi_grid st)
                  (env_p_shape env)\<rparr>))))))))"

text \<open>The choice of the pusher, with the error for an unknown name.\<close>

definition evolve_plasma :: "externals \<Rightarrow> sweep_env \<Rightarrow> real \<Rightarrow> plasma_particles \<Rightarrow> error + plasma_particles" where
  "evolve_plasma ext env xi pp =
     (if env_plasma_pusher env = ''ab5'' then Inr (evolve_plasma_ab5 ext pp (env_dxi env))
      else if env_plasma_pusher env = ''rk4'' then
        Inr (evolve_plasma_rk4 ext pp (env_dxi env) xi (env_a2_rz env) (env_nabla_a2_rz env)
               (env_b_theta_0_mesh env) (env_r_fld env) (env_xi_fld env))
      else Inl (ValueError (''Plasma pusher '' @ [CHR 0x27] @ env_plasma_pusher env @ [CHR 0x27]
                  @ '' not recognized.'')))"

text \<open>One pass of the body of the main loop, and the loop \<open>for step in np.arange(n_xi)\<close>.\<close>

definition slice_step :: "externals \<Rightarrow> sweep_env \<Rightarrow> nat \<Rightarrow> sweep_state \<Rightarrow> error + sweep_state" where
  "slice_step ext env step st =
     bind_err (slice_fields ext env step st) (\<lambda>(xi, st).
       if int step < env_n_xi env - 1
       then bind_err (evolve_plasma ext env xi (particles st)) (\<lambda>pp. Inr (st\<lparr>particles := pp\<rparr>))
       else Inr st)"

definition main_loop :: "externals \<Rightarrow> sweep_env \<Rightarrow> sweep_state \<Rightarrow> error + sweep_state" where
  "main_loop ext env st = for_each (slice_step ext env) [0..<nat (env_n_xi env)] st"

subsection \<open>\<open>calculate_wakefields\<close>\<close>

text \<open>
  The set-up before the main loop. The skin depth comes back from NumPy, so the divisions
  are NumPy's and never raise; where NumPy yields an infinity or a NaN for a zero divisor,
  the quotient of the model is HOL's. The eight arrays with guard cells are allocated with
  one shape, \<open>(n_xi + 4, n_r + 4)\<close>.
\<close>

definition wakefield_setup ::
  "externals \<Rightarrow> array2 \<Rightarrow> array \<times> array \<times> array \<times> array \<Rightarrow> real \<Rightarrow> real \<Rightarrow> real \<Rightarrow> int \<Rightarrow> int \<Rightarrow> int \<Rightarrow>
   real \<Rightarrow> real option \<Rightarrow> real \<Rightarrow> string \<Rightarrow> real \<Rightarrow> string \<Rightarrow> error + sweep_env \<times> sweep_state" where
  "wakefield_setup ext laser_a2 beam_part r_max xi_min xi_max n_r n_xi ppc n_p r_max_plasma
       parabolic_coefficient p_shape max_gamma plasma_pusher =
     (let s_d = plasma_skin_depth ext (n_p * (1 / 1000000));
          r_max = r_max / s_d;
          xi_min = xi_min / s_d;
          xi_max = xi_max / s_d;
          dr = r_max / real_of_int n_r;
          dxi = (xi_max - xi_min) / real_of_int (n_xi - 1);
          parabolic_coefficient = parabolic_coefficient * s_d\<^sup>2;
          r_max_plasma = (case r_max_plasma of None \<Rightarrow> r_max | Some v \<Rightarrow> v / s_d);
          pp = new_plasma_particles ext r_max r_max_plasma parabolic_coefficient dr ppc plasma_pusher
      in bind_err (np_zeros2 (n_xi + 4) (n_r + 4)) (\<lambda>zeros.
         bind_err (set_interior zeros laser_a2) (\<lambda>a2_rz.
         bind_err (set_interior zeros (radial_gradient ext laser_a2 dr)) (\<lambda>nabla_a2_rz.
         bind_err (np_linspace (dr / 2) (r_max - dr / 2) n_r) (\<lambda>r_fld.
         bind_err (np_linspace xi_min xi_max n_xi) (\<lambda>xi_fld.
         bind_err (py_get r_fld 0) (\<lambda>r_first.
         bind_err (py_get xi_fld 0) (\<lambda>xi_first.
         bind_err (case beam_part of (x, y, xi, q) \<Rightarrow>
                     calculate_beam_source_from_particles ext x y xi q n_p n_r n_xi r_first xi_first
                       dr dxi p_shape) (\<lambda>b_theta_0_mesh.
           Inr (\<lparr>env_a2_rz = a2_rz, env_nabla_a2_rz = nabla_a2_rz,
                  env_b_theta_0_mesh = b_theta_0_mesh, env_xi_fld = xi_fld, env_r_fld = r_fld,
                  env_dxi = dxi, env_dr = dr, env_xi_min = xi_min, env_n_xi = n_xi, env_n_r = n_r,
                  env_p_shape = p_shape, env_max_gamma = max_gamma,
                  env_plasma_pusher = plasma_pusher\<rparr>,
                \<lparr>particles = pp, rho_grid = zeros, chi_grid = zeros, psi_grid = zeros,
                  W_r_grid = zeros, E_z_grid = zeros, b_theta_bar_grid = zeros\<rparr>))))))))))"

text \<open>The derived fields after the loop: \<open>W_r\<close>, then the returned tuple
  \<open>(rho, chi, E_r, E_z, B_theta, xi_fld, r_fld)\<close>.\<close>

definition derived_W_r :: "sweep_env \<Rightarrow> sweep_state \<Rightarrow> error + array2" where
  "derived_W_r env st =
     bind_err (np_gradient2 (interior_cells (psi_grid st)) (env_dxi env) (env_dr env))
       (\<lambda>(dxi_psi, dr_psi). set_interior (W_r_grid st) (map (map uminus) dr_psi))"

definition derived_fields ::
  "sweep_env \<Rightarrow> sweep_state \<Rightarrow> error + array2 \<times> array2 \<times> array2 \<times> array2 \<times> array2 \<times> array \<times> array" where
  "derived_fields env st =
     bind_err (np_gradient2 (interior_cells (psi_grid st)) (env_dxi env) (env_dr env))
       (\<lambda>(dxi_psi, dr_psi).
     bind_err (set_interior (E_z_grid st) (map (map uminus) dxi_psi)) (\<lambda>E_z.
     bind_err (set_interior (W_r_grid st) (map (map uminus) dr_psi)) (\<lambda>W_r.
     bind_err (np_add2 (b_theta_bar_grid st) (env_b_theta_0_mesh env)) (\<lambda>B_theta.
     bind_err (np_add2 W_r B_theta) (\<lambda>E_r.
       Inr (rho_grid st, chi_grid st, E_r, E_z, B_theta, env_xi_fld env, env_r_fld env))))))"

definition calculate_wakefields ::
  "externals \<Rightarrow> array2 \<Rightarrow> array \<times> array \<times> array \<times> array \<Rightarrow> real \<Rightarrow> real \<Rightarrow> real \<Rightarrow> int \<Rightarrow> int \<Rightarrow> int \<Rightarrow>
   real \<Rightarrow> real option \<Rightarrow> real \<Rightarrow> string \<Rightarrow> real \<Rightarrow> string \<Rightarrow>
   error + array2 \<times> array2 \<times> array2 \<times> array2 \<times> array2 \<times> array \<times> array" where
  "calculate_wakefields ext laser_a2 beam_part r_max xi_min xi_max n_r n_xi ppc n_p r_max_plasma
       parabolic_coefficient p_shape max_gamma plasma_pusher =
     bind_err (wakefield_setup ext laser_a2 beam_part r_max xi_min xi_max n_r n_xi ppc n_p
                 r_max_plasma parabolic_coefficient p_shape max_gamma plasma_pusher)
       (\<lambda>(env, st). bind_err (main_loop ext env st) (derived_fields env))"

subsection \<open>A concrete set of collaborators\<close>

text \<open>A concrete radial order for running the model: the indices sorted by \<open>r\<close>, those
  of equal radii in storage order.\<close>

definition stable_argsort :: "array \<Rightarrow> nat list" where
  "stable_argsort r = sort_key (\<lambda>i. r ! i) [0..<length r]"

text \<open>
  Collaborators for running the model on concrete inputs: two particles at rest, a gather
  that finds the laser intensity \<open>a2_value\<close> and no beam field at every particle, a potential
  solver that finds \<open>psi_value\<close> at every particle, zero fields at the grid radii, depositions
  and pushers that leave their argument as it is.
\<close>

definition two_particles_at_rest :: plasma_particles where
  "two_particles_at_rest =
     \<lparr>pp_r = [1/4, 3/4], pp_pr = [0, 0], pp_pz = [0, 0], pp_gamma = [1, 1], pp_q = [1, 1],
      pp_r_max_plasma = 1, pp_dr_p = 1/2, pp_parabolic_coefficient = 0,
      a2_pp = [0, 0], nabla_a2_pp = [0, 0], b_theta_0_pp = [0, 0], b_theta_pp = [0, 0],
      psi_pp = [0, 0], dr_psi_pp = [0, 0], dxi_psi_pp = [0, 0], pusher_history = []\<rparr>"

definition uniform_externals :: "real \<Rightarrow> real \<Rightarrow> externals" where
  "uniform_externals a2_value psi_value =
     \<lparr>plasma_skin_depth = (\<lambda>n. 1),
      ct_e = 1,
      np_pi = 3,
      new_plasma_particles = (\<lambda>r_max r_max_plasma parabolic_coefficient dr ppc pusher.
        two_particles_at_rest\<lparr>pp_r_max_plasma := r_max_plasma, pp_dr_p := dr / real_of_int ppc,
          pp_parabolic_coefficient := parabolic_coefficient\<rparr>),
      radial_gradient = (\<lambda>a dr. map (map (\<lambda>v. 0)) a),
      deposit_3d_distribution = (\<lambda>z x y w z_min r_min n_z n_r dz dr grid shape ruyten. grid),
      gather_sources_qs_baxevanis =
        (\<lambda>a2_rz nabla_a2_rz b_theta_0_mesh xi_first xi_last r_first r_last dxi dr r xi a2 nabla_a2
            b_theta_0.
           (map (\<lambda>v. a2_value) r, map (\<lambda>v. 0) r, map (\<lambda>v. 0) r)),
      argsort = stable_argsort,
      calculate_psi_and_derivatives_at_particles =
        (\<lambda>r pr q idx r_max_plasma dr_p parabolic_coefficient psi dr_psi dxi_psi.
           (map (\<lambda>v. psi_value) r, map (\<lambda>v. 0) r, map (\<lambda>v. 0) r)),
      calculate_b_theta_at_particles =
        (\<lambda>r pr q gamma psi dr_psi dxi_psi b_theta_0 nabla_a2 idx dr_p b_theta. map (\<lambda>v. 0) r),
      calculate_psi = (\<lambda>r_fld r q idx r_max_plasma parabolic_coefficient. map (\<lambda>v. 0) r_fld),
      calculate_b_theta =
        (\<lambda>r_fld r pr q gamma psi dr_psi dxi_psi b_theta_0 nabla_a2 idx. map (\<lambda>v. 0) r_fld),
      deposit_plasma_particles = (\<lambda>xi r w xi_min r_min n_xi n_r dxi dr grid shape. grid),
      evolve_plasma_ab5 = (\<lambda>pp dxi. pp),
      evolve_plasma_rk4 = (\<lambda>pp dxi xi a2_rz nabla_a2_rz b_theta_0_mesh r_fld xi_fld. pp)\<rparr>"

text \<open>A grid of three radial cells of width 1 and \<open>n_xi\<close> slices at distance 1, without
  laser and beam, and the state in which the main loop starts on it.\<close>

definition three_cell_env :: "int \<Rightarrow> string \<Rightarrow> sweep_env" where
  "three_cell_env n_xi pusher =
     \<lparr>env_a2_rz = replicate (nat (n_xi + 4)) (replicate 7 0),
      env_nabla_a2_rz = replicate (nat (n_xi + 4)) (replicate 7 0),
      env_b_theta_0_mesh = replicate (nat (n_xi + 4)) (replicate 7 0),
      env_xi_fld = map real [0..<nat n_xi], env_r_fld = [1/2, 3/2, 5/2],
      env_dxi = 1, env_dr = 1, env_xi_min = 0, env_n_xi = n_xi, env_n_r = 3,
      env_p_shape = ''cubic'', env_max_gamma = 10, env_plasma_pusher = pusher\<rparr>"

definition zero_grids_state :: "int \<Rightarrow> sweep_state" where
  "zero_grids_state n_xi =
     \<lparr>particles = two_particles_at_rest,
      rho_grid = replicate (nat (n_xi + 4)) (replicate 7 0),
      chi_grid = replicate (nat (n_xi + 4)) (replicate 7 0),
      psi_grid = replicate (nat (n_xi + 4)) (replicate 7 0),
      W_r_grid = replicate (nat (n_xi + 4)) (replicate 7 0),
      E_z_grid = replicate (nat (n_xi + 4)) (replicate 7 0),
      b_theta_bar_grid = replicate (nat (n_xi + 4)) (replicate 7 0)\<rparr>"

text \<open>The same collaborators with a beam deposition that adds the charge 4 to the
  innermost cell of every row.\<close>

definition axis_charge_externals :: externals where
  "axis_charge_externals =
     (uniform_externals 0 0)\<lparr>deposit_3d_distribution :=
        (\<lambda>z x y w z_min r_min n_z n_r dz dr grid shape ruyten.
           map (\<lambda>row. row[2 := row ! 2 + 4]) grid)\<rparr>"

text \<open>The same collaborators with a potential solver that finds \<open>psi = r\<^sup>2\<close> at the grid
  radii, and the state in which the main loop ends with them on the three-cell grid: every
  interior row of the potential holds the squares of the three radii.\<close>

definition radial_potential_externals :: externals where
  "radial_potential_externals =
     (uniform_externals 0 0)\<lparr>calculate_psi :=
        (\<lambda>r_fld r q idx r_max_plasma parabolic_coefficient. map (\<lambda>v. v * v) r_fld)\<rparr>"

definition radial_potential_state :: "int \<Rightarrow> sweep_state" where
  "radial_potential_state n_xi =
     (zero_grids_state n_xi)\<lparr>particles := two_particles_at_rest\<lparr>pp_r_max_plasma := 3\<rparr>,
        psi_grid := replicate 2 (replicate 7 0) @ replicate (nat n_xi) [0, 0, 1/4, 9/4, 25/4, 0, 0]
                      @ replicate 2 (replicate 7 0)\<rparr>"

section \<open>Properties\<close>

subsection \<open>The gamma / pz update\<close>

lemma gamma_pz_loop_Inr:
  assumes "for_each (gamma_pz_body pr a2 psi) [lo..<hi] (gamma, pz) = Inr (gamma', pz')"
  shows "length gamma' = length gamma \<and> length pz' = length pz \<and>
         (\<forall>i. lo \<le> i \<and> i < hi \<longrightarrow>
            psi ! i \<noteq> -1 \<and> i < length gamma \<and> i < length pz \<and>
            gamma' ! i = (1 + (pr ! i)\<^sup>2 + a2 ! i + (1 + psi ! i)\<^sup>2) / (2 * (1 + psi ! i)) \<and>
            pz' ! i = (1 + (pr ! i)\<^sup>2 + a2 ! i - (1 + psi ! i)\<^sup>2) / (2 * (1 + psi ! i))) \<and>
         (\<forall>i. \<not> (lo \<le> i \<and> i < hi) \<longrightarrow> gamma' ! i = gamma ! i \<and> pz' ! i = pz ! i)"
  using assms
proof (induction "hi - lo" arbitrary: lo gamma pz)
  case 0
  then show ?case by simp
next
  case (Suc n)
  then have lt: "lo < hi" by simp
  then have range: "[lo..<hi] = lo # [Suc lo..<hi]" by (simp add: upt_conv_Cons)
  from Suc.prems obtain g1 p1 where
    body: "gamma_pz_body pr a2 psi lo (gamma, pz) = Inr (g1, p1)" and
    rest: "for_each (gamma_pz_body pr a2 psi) [Suc lo..<hi] (g1, p1) = Inr (gamma', pz')"
    by (auto simp: range split: sum.splits)
  from body have ok: "lo < length pr" "lo < length a2" "lo < length psi" "psi ! lo \<noteq> -1"
      "lo < length gamma" "lo < length pz"
    and g1: "g1 = gamma[lo := (1 + (pr ! lo)\<^sup>2 + a2 ! lo + (1 + psi ! lo)\<^sup>2) / (2 * (1 + psi ! lo))]"
    and p1: "p1 = pz[lo := (1 + (pr ! lo)\<^sup>2 + a2 ! lo - (1 + psi ! lo)\<^sup>2) / (2 * (1 + psi ! lo))]"
    by (auto simp: gamma_pz_body_def split: if_splits)
  have n: "n = hi - Suc lo" using Suc.hyps(2) by simp
  note ih = Suc.hyps(1) [OF n rest]
  show ?case
  proof (intro conjI allI impI)
    show "length gamma' = length gamma" using ih g1 by simp
    show "length pz' = length pz" using ih p1 by simp
  next
    fix i assume i: "lo \<le> i \<and> i < hi"
    show "psi ! i \<noteq> -1"
      using ih i ok by (cases "i = lo") auto
    show "i < length gamma" using ih i ok g1 by (cases "i = lo") auto
    show "i < length pz" using ih i ok p1 by (cases "i = lo") auto
    show "gamma' ! i = (1 + (pr ! i)\<^sup>2 + a2 ! i + (1 + psi ! i)\<^sup>2) / (2 * (1 + psi ! i))"
    proof (cases "i = lo")
      case True
      then have "gamma' ! i = g1 ! lo" using ih by simp
      then show ?thesis using True g1 ok by simp
    next
      case False
      then show ?thesis using ih i by simp
    qed
    show "pz' ! i = (1 + (pr ! i)\<^sup>2 + a2 ! i - (1 + psi ! i)\<^sup>2) / (2 * (1 + psi ! i))"
    proof (cases "i = lo")
      case True
      then have "pz' ! i = p1 ! lo" using ih by simp
      then show ?thesis using True p1 ok by simp
    next
      case False
      then show ?thesis using ih i by simp
    qed
  next
    fix i assume i: "\<not> (lo \<le> i \<and> i < hi)"
    then have "\<not> (Suc lo \<le> i \<and> i < hi)" "i \<noteq> lo" using lt by auto
    then show "gamma' ! i = gamma ! i" "pz' ! i = pz ! i" using ih g1 p1 by simp_all
  qed
qed

lemma gamma_pz_loop_returns:
  assumes "hi \<le> length pr" "hi \<le> length a2" "hi \<le> length psi"
    "hi \<le> length gamma" "hi \<le> length pz"
    "\<forall>i. lo \<le> i \<and> i < hi \<longrightarrow> psi ! i \<noteq> -1"
  shows "\<exists>r. for_each (gamma_pz_body pr a2 psi) [lo..<hi] (gamma, pz) = Inr r"
  using assms
proof (induction "hi - lo" arbitrary: lo gamma pz)
  case 0
  then show ?case by simp
next
  case (Suc n)
  then have lt: "lo < hi" by simp
  then have range: "[lo..<hi] = lo # [Suc lo..<hi]" by (simp add: upt_conv_Cons)
  have nz: "psi ! lo \<noteq> -1" using Suc.prems(6) lt by simp
  obtain g1 p1 where body: "gamma_pz_body pr a2 psi lo (gamma, pz) = Inr (g1, p1)"
    and len: "length g1 = length gamma" "length p1 = length pz"
    using Suc.prems(1-5) lt nz by (simp add: gamma_pz_body_def)
  have n: "n = hi - Suc lo" using Suc.hyps(2) by simp
  have "\<exists>r. for_each (gamma_pz_body pr a2 psi) [Suc lo..<hi] (g1, p1) = Inr r"
    using Suc.hyps(1) [OF n, of g1 p1] Suc.prems len by simp
  then show ?case using body by (simp add: range)
qed

lemma bind_err_Inr_iff:
  "bind_err m f = Inr y \<longleftrightarrow> (\<exists>x. m = Inr x \<and> f x = Inr y)"
  by (cases m) auto

lemma update_gamma_and_pz_Inr:
  assumes "update_gamma_and_pz gamma pz pr a2 psi = Inr (g, p)"
  shows "length g = length gamma" "length p = length pz"
    "length pr \<le> length gamma" "length pr \<le> length pz"
    "\<And>i. i < length pr \<Longrightarrow> psi ! i \<noteq> -1"
    "\<And>i. i < length pr \<Longrightarrow>
       g ! i = (1 + (pr ! i)\<^sup>2 + a2 ! i + (1 + psi ! i)\<^sup>2) / (2 * (1 + psi ! i))"
    "\<And>i. i < length pr \<Longrightarrow>
       p ! i = (1 + (pr ! i)\<^sup>2 + a2 ! i - (1 + psi ! i)\<^sup>2) / (2 * (1 + psi ! i))"
    "\<And>i. length pr \<le> i \<Longrightarrow> g ! i = gamma ! i"
    "\<And>i. length pr \<le> i \<Longrightarrow> p ! i = pz ! i"
proof -
  note loop = gamma_pz_loop_Inr [OF assms [unfolded update_gamma_and_pz_def]]
  show "length g = length gamma" "length p = length pz" using loop by simp_all
  show "\<And>i. i < length pr \<Longrightarrow> psi ! i \<noteq> -1" using loop by simp
  show "\<And>i. i < length pr \<Longrightarrow>
       g ! i = (1 + (pr ! i)\<^sup>2 + a2 ! i + (1 + psi ! i)\<^sup>2) / (2 * (1 + psi ! i))"
    using loop by simp
  show "\<And>i. i < length pr \<Longrightarrow>
       p ! i = (1 + (pr ! i)\<^sup>2 + a2 ! i - (1 + psi ! i)\<^sup>2) / (2 * (1 + psi ! i))"
    using loop by simp
  show "\<And>i. length pr \<le> i \<Longrightarrow> g ! i = gamma ! i" using loop by simp
  show "\<And>i. length pr \<le> i \<Longrightarrow> p ! i = pz ! i" using loop by simp
  have "\<forall>i. i < length pr \<longrightarrow> i < length gamma \<and> i < length pz" using loop by simp
  then show "length pr \<le> length gamma" "length pr \<le> length pz"
    by (metis not_le_imp_less less_irrefl)+
qed

lemma update_gamma_and_pz_returns:
  assumes "length pr \<le> length gamma" "length pr \<le> length pz"
    "length pr \<le> length a2" "length pr \<le> length psi"
    "\<forall>i < length pr. psi ! i \<noteq> -1"
  shows "\<exists>g p. update_gamma_and_pz gamma pz pr a2 psi = Inr (g, p)"
proof -
  have "\<exists>r. for_each (gamma_pz_body pr a2 psi) [0..<length pr] (gamma, pz) = Inr r"
    using assms by (intro gamma_pz_loop_returns) auto
  then show ?thesis by (auto simp: update_gamma_and_pz_def)
qed

text \<open>
  Claim C1. When the five arrays hold at least \<open>pr.shape[0]\<close> entries and no \<open>psi[i]\<close> is
  \<open>-1\<close>, \<open>update_gamma_and_pz\<close> returns, and for every particle index \<open>i\<close> it has set
  \<open>gamma[i] = (1 + pr[i]^2 + a2[i] + (1 + psi[i])^2) / (2 (1 + psi[i]))\<close> and
  \<open>pz[i] = (1 + pr[i]^2 + a2[i] - (1 + psi[i])^2) / (2 (1 + psi[i]))\<close>, each from the entries
  of \<open>pr\<close>, \<open>a2\<close> and \<open>psi\<close> at the same index alone. The arrays keep their lengths, entries
  past \<open>pr.shape[0]\<close> keep their values, and of the particle state only \<open>gamma\<close> and \<open>pz\<close>
  are replaced.
\<close>

theorem update_gamma_and_pz_closed_form:
  assumes "length (pp_pr pp) \<le> length (pp_gamma pp)" "length (pp_pr pp) \<le> length (pp_pz pp)"
    "length (pp_pr pp) \<le> length (a2_pp pp)" "length (pp_pr pp) \<le> length (psi_pp pp)"
    "\<forall>i < length (pp_pr pp). psi_pp pp ! i \<noteq> -1"
  shows "\<exists>g p.
     update_gamma_and_pz (pp_gamma pp) (pp_pz pp) (pp_pr pp) (a2_pp pp) (psi_pp pp) = Inr (g, p) \<and>
     update_particles pp = Inr (pp\<lparr>pp_gamma := g, pp_pz := p\<rparr>) \<and>
     length g = length (pp_gamma pp) \<and> length p = length (pp_pz pp) \<and>
     (\<forall>i < length (pp_pr pp).
        g ! i = (1 + (pp_pr pp ! i)\<^sup>2 + a2_pp pp ! i + (1 + psi_pp pp ! i)\<^sup>2) / (2 * (1 + psi_pp pp ! i)) \<and>
        p ! i = (1 + (pp_pr pp ! i)\<^sup>2 + a2_pp pp ! i - (1 + psi_pp pp ! i)\<^sup>2) / (2 * (1 + psi_pp pp ! i))) \<and>
     (\<forall>i \<ge> length (pp_pr pp). g ! i = pp_gamma pp ! i \<and> p ! i = pp_pz pp ! i)"
proof -
  obtain g p where
    run: "update_gamma_and_pz (pp_gamma pp) (pp_pz pp) (pp_pr pp) (a2_pp pp) (psi_pp pp) = Inr (g, p)"
    using update_gamma_and_pz_returns [OF assms] by blast
  have "update_particles pp = Inr (pp\<lparr>pp_gamma := g, pp_pz := p\<rparr>)"
    by (simp add: update_particles_def run)
  then show ?thesis
    using run update_gamma_and_pz_Inr [OF run] by blast
qed

theorem update_gamma_and_pz_closed_form_witness:
  "length (pp_pr (two_particles_at_rest\<lparr>a2_pp := [3, 0], psi_pp := [0, 1]\<rparr>)) = 2 \<and>
   length (pp_gamma (two_particles_at_rest\<lparr>a2_pp := [3, 0], psi_pp := [0, 1]\<rparr>)) = 2 \<and>
   length (pp_pz (two_particles_at_rest\<lparr>a2_pp := [3, 0], psi_pp := [0, 1]\<rparr>)) = 2 \<and>
   length (a2_pp (two_particles_at_rest\<lparr>a2_pp := [3, 0], psi_pp := [0, 1]\<rparr>)) = 2 \<and>
   length (psi_pp (two_particles_at_rest\<lparr>a2_pp := [3, 0], psi_pp := [0, 1]\<rparr>)) = 2 \<and>
   psi_pp (two_particles_at_rest\<lparr>a2_pp := [3, 0], psi_pp := [0, 1]\<rparr>) ! 0 \<noteq> - 1 \<and>
   psi_pp (two_particles_at_rest\<lparr>a2_pp := [3, 0], psi_pp := [0, 1]\<rparr>) ! 1 \<noteq> - 1 \<and>
   update_particles (two_particles_at_rest\<lparr>a2_pp := [3, 0], psi_pp := [0, 1]\<rparr>)
     = Inr (two_particles_at_rest\<lparr>a2_pp := [3, 0], psi_pp := [0, 1],
              pp_gamma := [5/2, 5/4], pp_pz := [3/2, - 3/4]\<rparr>)"
proof -
  let ?pp = "two_particles_at_rest\<lparr>a2_pp := [3, 0], psi_pp := [0, 1]\<rparr>"
  have len: "length (pp_pr ?pp) = 2" "length (pp_gamma ?pp) = 2" "length (pp_pz ?pp) = 2"
    "length (a2_pp ?pp) = 2" "length (psi_pp ?pp) = 2"
    by (simp_all add: two_particles_at_rest_def)
  have nz: "\<forall>i < length (pp_pr ?pp). psi_pp ?pp ! i \<noteq> - 1"
    by (simp add: two_particles_at_rest_def less_Suc_eq numeral_2_eq_2)
  obtain g p where
    upd: "update_particles ?pp = Inr (?pp\<lparr>pp_gamma := g, pp_pz := p\<rparr>)"
    and lg: "length g = length (pp_gamma ?pp)" and lp: "length p = length (pp_pz ?pp)"
    and val: "\<forall>i < length (pp_pr ?pp).
        g ! i = (1 + (pp_pr ?pp ! i)\<^sup>2 + a2_pp ?pp ! i + (1 + psi_pp ?pp ! i)\<^sup>2) / (2 * (1 + psi_pp ?pp ! i)) \<and>
        p ! i = (1 + (pp_pr ?pp ! i)\<^sup>2 + a2_pp ?pp ! i - (1 + psi_pp ?pp ! i)\<^sup>2) / (2 * (1 + psi_pp ?pp ! i))"
    using update_gamma_and_pz_closed_form [of ?pp] len nz by auto
  have "g ! 0 = 5/2" "g ! 1 = 5/4" "p ! 0 = 3/2" "p ! 1 = - 3/4"
    using val len by (simp_all add: two_particles_at_rest_def power2_eq_square)
  moreover have "length g = 2" "length p = 2" using lg lp len by simp_all
  ultimately have "g = [5/2, 5/4]" "p = [3/2, - 3/4]"
    by (auto simp: list_eq_iff_nth_eq less_Suc_eq numeral_2_eq_2)
  then show ?thesis
    using upd len by (simp add: two_particles_at_rest_def)
qed

subsection \<open>The freeze step\<close>

lemma foldl_update_length: "length (foldl (\<lambda>a i. a[i := v]) xs idx) = length xs"
  by (induction idx arbitrary: xs) auto

lemma foldl_update_nth:
  "foldl (\<lambda>a i. a[i := v]) xs idx ! k = (if k \<in> set idx \<and> k < length xs then v else xs ! k)"
proof (induction idx arbitrary: xs)
  case Nil
  then show ?case by simp
next
  case (Cons j idx)
  have "foldl (\<lambda>a i. a[i := v]) xs (j # idx) ! k
      = (if k \<in> set idx \<and> k < length xs then v else xs[j := v] ! k)"
    by (simp add: Cons.IH)
  also have "\<dots> = (if k \<in> set (j # idx) \<and> k < length xs then v else xs ! k)"
    by (cases "k = j") (auto simp: list_update_beyond)
  finally show ?case .
qed

lemma set_at_indices_Inr:
  assumes "set_at_indices xs idx v = Inr ys"
  shows "length ys = length xs" "\<And>k. ys ! k = (if k \<in> set idx then v else xs ! k)"
    "\<forall>i \<in> set idx. i < length xs"
proof -
  from assms have ok: "\<forall>i \<in> set idx. i < length xs" and ys: "ys = foldl (\<lambda>a i. a[i := v]) xs idx"
    by (auto simp: set_at_indices_def split: if_splits)
  show "length ys = length xs" by (simp add: ys foldl_update_length)
  show "\<forall>i \<in> set idx. i < length xs" by (rule ok)
  show "\<And>k. ys ! k = (if k \<in> set idx then v else xs ! k)"
    using ok by (auto simp: ys foldl_update_nth)
qed

lemma set_where_ge: "set (where_ge xs v) = {i. i < length xs \<and> xs ! i \<ge> v}"
  by (auto simp: where_ge_def)

text \<open>What the freeze step returns, particle by particle.\<close>

lemma freeze_Inr:
  assumes "freeze max_gamma pp = Inr pp'"
  shows "pp' = pp\<lparr>pp_pz := pp_pz pp', pp_gamma := pp_gamma pp', pp_pr := pp_pr pp'\<rparr>"
    "length (pp_pz pp') = length (pp_pz pp)" "length (pp_gamma pp') = length (pp_gamma pp)"
    "length (pp_pr pp') = length (pp_pr pp)"
    "\<And>i. i < length (pp_gamma pp) \<Longrightarrow> pp_gamma pp ! i \<ge> max_gamma \<Longrightarrow>
       pp_pz pp' ! i = 0 \<and> pp_gamma pp' ! i = 1 \<and> pp_pr pp' ! i = 0"
    "\<And>i. \<not> (i < length (pp_gamma pp) \<and> pp_gamma pp ! i \<ge> max_gamma) \<Longrightarrow>
       pp_pz pp' ! i = pp_pz pp ! i \<and> pp_gamma pp' ! i = pp_gamma pp ! i \<and> pp_pr pp' ! i = pp_pr pp ! i"
proof -
  let ?idx = "where_ge (pp_gamma pp) max_gamma"
  show "pp' = pp\<lparr>pp_pz := pp_pz pp', pp_gamma := pp_gamma pp', pp_pr := pp_pr pp'\<rparr>"
    using assms by (auto simp: freeze_def Let_def bind_err_Inr_iff split: if_splits)
  consider (none) "?idx = []" "pp' = pp"
    | (some) pz g pr where "?idx \<noteq> []" "set_at_indices (pp_pz pp) ?idx 0 = Inr pz"
        "set_at_indices (pp_gamma pp) ?idx 1 = Inr g" "set_at_indices (pp_pr pp) ?idx 0 = Inr pr"
        "pp' = pp\<lparr>pp_pz := pz, pp_gamma := g, pp_pr := pr\<rparr>"
    using assms by (auto simp: freeze_def Let_def bind_err_Inr_iff split: if_splits)
  then have "length (pp_pz pp') = length (pp_pz pp) \<and> length (pp_gamma pp') = length (pp_gamma pp) \<and>
      length (pp_pr pp') = length (pp_pr pp) \<and>
      (\<forall>i. pp_pz pp' ! i = (if i \<in> set ?idx then 0 else pp_pz pp ! i) \<and>
           pp_gamma pp' ! i = (if i \<in> set ?idx then 1 else pp_gamma pp ! i) \<and>
           pp_pr pp' ! i = (if i \<in> set ?idx then 0 else pp_pr pp ! i))"
  proof cases
    case none
    then show ?thesis by simp
  next
    case some
    show ?thesis
      using set_at_indices_Inr(1,2) [OF some(2)] set_at_indices_Inr(1,2) [OF some(3)]
        set_at_indices_Inr(1,2) [OF some(4)]
      by (simp add: some(5))
  qed
  then have len: "length (pp_pz pp') = length (pp_pz pp)" "length (pp_gamma pp') = length (pp_gamma pp)"
      "length (pp_pr pp') = length (pp_pr pp)"
    and nth: "\<And>i. pp_pz pp' ! i = (if i \<in> set ?idx then 0 else pp_pz pp ! i)"
      "\<And>i. pp_gamma pp' ! i = (if i \<in> set ?idx then 1 else pp_gamma pp ! i)"
      "\<And>i. pp_pr pp' ! i = (if i \<in> set ?idx then 0 else pp_pr pp ! i)"
    by simp_all
  show "length (pp_pz pp') = length (pp_pz pp)" "length (pp_gamma pp') = length (pp_gamma pp)"
    "length (pp_pr pp') = length (pp_pr pp)"
    by (rule len)+
  show "pp_pz pp' ! i = 0 \<and> pp_gamma pp' ! i = 1 \<and> pp_pr pp' ! i = 0"
    if "i < length (pp_gamma pp)" "pp_gamma pp ! i \<ge> max_gamma" for i
  proof -
    have "i \<in> set ?idx" using that by (simp add: set_where_ge)
    then show ?thesis by (simp add: nth)
  qed
  show "pp_pz pp' ! i = pp_pz pp ! i \<and> pp_gamma pp' ! i = pp_gamma pp ! i \<and> pp_pr pp' ! i = pp_pr pp ! i"
    if "\<not> (i < length (pp_gamma pp) \<and> pp_gamma pp ! i \<ge> max_gamma)" for i
  proof -
    have "i \<notin> set ?idx" using that by (simp add: set_where_ge)
    then show ?thesis by (simp add: nth)
  qed
qed

lemma freeze_returns:
  assumes "length (pp_gamma pp) \<le> length (pp_pz pp)" "length (pp_gamma pp) \<le> length (pp_pr pp)"
  shows "\<exists>pp'. freeze max_gamma pp = Inr pp'"
proof -
  have "\<forall>i \<in> set (where_ge (pp_gamma pp) max_gamma). i < length (pp_gamma pp)"
    by (simp add: set_where_ge)
  then show ?thesis
    using assms by (auto simp: freeze_def Let_def set_at_indices_def)
qed

text \<open>
  What the freeze step does, on arrays \<open>pz\<close> and \<open>pr\<close> that are at least as long as
  \<open>gamma\<close>: it returns; the particles with \<open>gamma >= max_gamma\<close> get \<open>pz = pr = 0\<close> and
  \<open>gamma = 1\<close>; a particle with \<open>gamma < max_gamma\<close> keeps \<open>pz\<close>, \<open>pr\<close> and \<open>gamma\<close>; nothing
  but these three arrays changes, so \<open>r\<close> and the charge weights \<open>q\<close> are as before, no
  particle is removed (the arrays keep their lengths), and the sum of the charge weights
  is the same.
\<close>

lemma freeze_frame:
  assumes "length (pp_gamma pp) \<le> length (pp_pz pp)" "length (pp_gamma pp) \<le> length (pp_pr pp)"
  shows "\<exists>pp'. freeze max_gamma pp = Inr pp' \<and>
     pp' = pp\<lparr>pp_pz := pp_pz pp', pp_gamma := pp_gamma pp', pp_pr := pp_pr pp'\<rparr> \<and>
     pp_r pp' = pp_r pp \<and> pp_q pp' = pp_q pp \<and> sum_list (pp_q pp') = sum_list (pp_q pp) \<and>
     length (pp_pz pp') = length (pp_pz pp) \<and> length (pp_gamma pp') = length (pp_gamma pp) \<and>
     length (pp_pr pp') = length (pp_pr pp) \<and>
     (\<forall>i < length (pp_gamma pp).
        (max_gamma \<le> pp_gamma pp ! i \<longrightarrow>
           pp_pz pp' ! i = 0 \<and> pp_pr pp' ! i = 0 \<and> pp_gamma pp' ! i = 1) \<and>
        (pp_gamma pp ! i < max_gamma \<longrightarrow>
           pp_pz pp' ! i = pp_pz pp ! i \<and> pp_pr pp' ! i = pp_pr pp ! i \<and>
           pp_gamma pp' ! i = pp_gamma pp ! i))"
proof -
  obtain pp' where run: "freeze max_gamma pp = Inr pp'"
    using freeze_returns [OF assms] by blast
  note fr = freeze_Inr [OF run]
  have frame: "pp_r pp' = pp_r pp" "pp_q pp' = pp_q pp"
    by (subst fr(1), simp)+
  have "\<forall>i < length (pp_gamma pp).
        (max_gamma \<le> pp_gamma pp ! i \<longrightarrow>
           pp_pz pp' ! i = 0 \<and> pp_pr pp' ! i = 0 \<and> pp_gamma pp' ! i = 1) \<and>
        (pp_gamma pp ! i < max_gamma \<longrightarrow>
           pp_pz pp' ! i = pp_pz pp ! i \<and> pp_pr pp' ! i = pp_pr pp ! i \<and>
           pp_gamma pp' ! i = pp_gamma pp ! i)"
    using fr(5,6) by (simp add: not_le)
  then show ?thesis
    using run fr(1-4) frame by simp
qed

text \<open>
  Claim C7. The claim has the freeze step freeze exactly the particles that exceed the
  threshold, as the docstring of \<open>max_gamma\<close> has it. The test of the code is
  \<open>pp.gamma >= max_gamma\<close>: a particle whose \<open>gamma\<close> equals \<open>max_gamma\<close> does not exceed the
  threshold and is frozen all the same. Here the first particle has \<open>gamma = 10 = max_gamma\<close>
  and comes back with \<open>pz = pr = 0\<close> and \<open>gamma = 1\<close>; the second, below the threshold, is
  unchanged.
\<close>

theorem freeze_at_threshold:
  "freeze 10 (two_particles_at_rest\<lparr>pp_gamma := [10, 2], pp_pz := [9, 1], pp_pr := [3, 1]\<rparr>)
     = Inr (two_particles_at_rest\<lparr>pp_gamma := [1, 2], pp_pz := [0, 1], pp_pr := [0, 1]\<rparr>)"
  by (simp add: freeze_def where_ge_def set_at_indices_def two_particles_at_rest_def)

text \<open>
  Claim C10. After a call of \<open>update_gamma_and_pz\<close> that returns, every particle index \<open>i\<close>
  with \<open>psi[i] \<noteq> -1\<close> has \<open>gamma[i] - pz[i] = 1 + psi[i]\<close>, an identity of the two closed
  forms in real arithmetic; after the freeze step every frozen particle has
  \<open>gamma - pz = 1\<close>.
\<close>

theorem gamma_minus_pz_identity:
  "(update_gamma_and_pz gamma pz pr a2 psi = Inr (g, p) \<longrightarrow>
      (\<forall>i < length pr. psi ! i \<noteq> - 1 \<longrightarrow> g ! i - p ! i = 1 + psi ! i)) \<and>
   (freeze max_gamma pp = Inr pp' \<longrightarrow>
      (\<forall>i < length (pp_gamma pp). max_gamma \<le> pp_gamma pp ! i \<longrightarrow>
         pp_gamma pp' ! i - pp_pz pp' ! i = 1))"
proof (intro conjI impI allI)
  fix i
  assume run: "update_gamma_and_pz gamma pz pr a2 psi = Inr (g, p)"
    and i: "i < length pr" and nz: "psi ! i \<noteq> - 1"
  define b where "b = 1 + psi ! i"
  define a where "a = 1 + (pr ! i)\<^sup>2 + a2 ! i"
  have b: "b \<noteq> 0" using nz by (simp add: b_def)
  have "g ! i - p ! i = (a + b\<^sup>2) / (2 * b) - (a - b\<^sup>2) / (2 * b)"
    using update_gamma_and_pz_Inr(6,7) [OF run i] by (simp add: a_def b_def)
  also have "\<dots> = (2 * b\<^sup>2) / (2 * b)"
    by (simp add: diff_divide_distrib [symmetric])
  also have "\<dots> = b" using b by (simp add: power2_eq_square)
  finally show "g ! i - p ! i = 1 + psi ! i" by (simp add: b_def)
next
  fix i
  assume run: "freeze max_gamma pp = Inr pp'"
    and i: "i < length (pp_gamma pp)" and big: "max_gamma \<le> pp_gamma pp ! i"
  show "pp_gamma pp' ! i - pp_pz pp' ! i = 1"
    using freeze_Inr(5) [OF run i big] by simp
qed

theorem gamma_minus_pz_identity_witness:
  "update_gamma_and_pz [1, 1] [0, 0] [0, 0] [3, 0] [0, 1] = Inr ([5/2, 5/4], [3/2, - 3/4]) \<and>
   [0, 1 :: real] ! 1 \<noteq> - 1 \<and>
   [5/2, 5/4 :: real] ! 1 - [3/2, - 3/4] ! 1 = 1 + [0, 1] ! 1 \<and>
   freeze 10 (two_particles_at_rest\<lparr>pp_gamma := [12, 2], pp_pz := [11, 1], pp_pr := [3, 1]\<rparr>)
     = Inr (two_particles_at_rest\<lparr>pp_gamma := [1, 2], pp_pz := [0, 1], pp_pr := [0, 1]\<rparr>) \<and>
   (10 :: real) \<le> pp_gamma (two_particles_at_rest\<lparr>pp_gamma := [12, 2], pp_pz := [11, 1], pp_pr := [3, 1]\<rparr>) ! 0 \<and>
   pp_gamma (two_particles_at_rest\<lparr>pp_gamma := [1, 2], pp_pz := [0, 1], pp_pr := [0, 1]\<rparr>) ! 0
     - pp_pz (two_particles_at_rest\<lparr>pp_gamma := [1, 2], pp_pz := [0, 1], pp_pr := [0, 1]\<rparr>) ! 0 = 1"
proof -
  have upd: "update_gamma_and_pz [1, 1] [0, 0] [0, 0] [3, 0] [0, 1] = Inr ([5/2, 5/4], [3/2, - 3/4])"
    by (simp add: update_gamma_and_pz_def gamma_pz_body_def upt_rec power2_eq_square)
  have frz: "freeze 10 (two_particles_at_rest\<lparr>pp_gamma := [12, 2], pp_pz := [11, 1], pp_pr := [3, 1]\<rparr>)
     = Inr (two_particles_at_rest\<lparr>pp_gamma := [1, 2], pp_pz := [0, 1], pp_pr := [0, 1]\<rparr>)"
    by (simp add: freeze_def where_ge_def set_at_indices_def two_particles_at_rest_def)
  note id = gamma_minus_pz_identity [of "[1, 1]" "[0, 0]" "[0, 0]" "[3, 0]" "[0, 1]"
      "[5/2, 5/4]" "[3/2, - 3/4]" 10
      "two_particles_at_rest\<lparr>pp_gamma := [12, 2], pp_pz := [11, 1], pp_pr := [3, 1]\<rparr>"
      "two_particles_at_rest\<lparr>pp_gamma := [1, 2], pp_pz := [0, 1], pp_pr := [0, 1]\<rparr>"]
  have a: "[5/2, 5/4 :: real] ! 1 - [3/2, - 3/4] ! 1 = 1 + [0, 1] ! 1"
    using id upd by simp
  have b: "pp_gamma (two_particles_at_rest\<lparr>pp_gamma := [1, 2], pp_pz := [0, 1], pp_pr := [0, 1]\<rparr>) ! 0
     - pp_pz (two_particles_at_rest\<lparr>pp_gamma := [1, 2], pp_pz := [0, 1], pp_pr := [0, 1]\<rparr>) ! 0 = 1"
    using id frz by simp
  show ?thesis using upd frz a b by simp
qed

subsection \<open>The particle part of a slice\<close>

lemma gamma_closed_form_ge_one:
  fixes pr a2 psi :: real
  assumes "0 < 1 + psi" "0 \<le> a2"
  shows "1 \<le> (1 + pr\<^sup>2 + a2 + (1 + psi)\<^sup>2) / (2 * (1 + psi))"
proof -
  have "0 \<le> pr\<^sup>2 + a2 + psi\<^sup>2" using assms by simp
  then have "2 * (1 + psi) \<le> 1 + pr\<^sup>2 + a2 + (1 + psi)\<^sup>2"
    by (simp add: power2_eq_square algebra_simps)
  then show ?thesis using assms by (simp add: le_divide_eq)
qed



lemma update_particles_Inr:
  assumes "update_particles pp = Inr pp'"
  shows "pp' = pp\<lparr>pp_gamma := pp_gamma pp', pp_pz := pp_pz pp'\<rparr>"
    "update_gamma_and_pz (pp_gamma pp) (pp_pz pp) (pp_pr pp) (a2_pp pp) (psi_pp pp)
       = Inr (pp_gamma pp', pp_pz pp')"
  using assms by (auto simp: update_particles_def bind_err_Inr_iff case_prod_beta)

text \<open>The stages of \<open>solve_particles\<close>, one after the other.\<close>

lemma solve_particles_Inr:
  assumes "solve_particles ext env xi pp = Inr (idx, pp')"
  obtains pp1 pp2 pp3 pp4 where
    "gather_sources ext env xi pp = Inr pp1"
    "idx = argsort ext (pp_r pp1)"
    "pp2 = solve_psi_at_particles ext idx pp1"
    "update_particles pp2 = Inr pp3"
    "pp4 = solve_b_theta_at_particles ext idx pp3"
    "freeze (env_max_gamma env) pp4 = Inr pp'"
  using assms
  by (auto simp: solve_particles_def bind_err_Inr_iff Let_def case_prod_beta)

text \<open>
  Claim C2, as amended. The freeze step resets only the particles with
  \<open>gamma >= max_gamma\<close>; every other particle keeps the \<open>gamma\<close> of the closed form. So
  after the freeze step of a slice, \<open>gamma >= 1\<close> holds for every particle at which the
  potential of the slice satisfies \<open>1 + psi > 0\<close> and the gathered \<open>a2\<close> is not negative,
  whatever \<open>max_gamma\<close> is.
\<close>

theorem gamma_after_freeze:
  assumes "solve_particles ext env xi pp = Inr (idx, pp')" "i < length (pp_pr pp')"
    "0 < 1 + psi_pp pp' ! i" "0 \<le> a2_pp pp' ! i"
  shows "1 \<le> pp_gamma pp' ! i"
proof -
  from assms(1) obtain pp1 pp2 pp3 pp4 where
    st: "gather_sources ext env xi pp = Inr pp1"
      "pp2 = solve_psi_at_particles ext idx pp1"
      "update_particles pp2 = Inr pp3"
      "pp4 = solve_b_theta_at_particles ext idx pp3"
      "freeze (env_max_gamma env) pp4 = Inr pp'"
    by (rule solve_particles_Inr)
  note upd = update_particles_Inr [OF st(3)]
  note run = update_gamma_and_pz_Inr [OF upd(2)]
  note fr = freeze_Inr [OF st(5)]
  have same4: "pp_pr pp4 = pp_pr pp2" "a2_pp pp4 = a2_pp pp2" "psi_pp pp4 = psi_pp pp2"
    "pp_gamma pp4 = pp_gamma pp3"
    by (simp_all add: st(4) solve_b_theta_at_particles_def, (subst upd(1), simp)+)
  have same': "a2_pp pp' = a2_pp pp4" "psi_pp pp' = psi_pp pp4"
    by (subst fr(1), simp)+
  have i2: "i < length (pp_pr pp2)" using assms(2) fr(4) same4(1) by simp
  have g3: "pp_gamma pp3 ! i = (1 + (pp_pr pp2 ! i)\<^sup>2 + a2_pp pp2 ! i + (1 + psi_pp pp2 ! i)\<^sup>2)
      / (2 * (1 + psi_pp pp2 ! i))"
    by (rule run(6) [OF i2])
  have "1 \<le> pp_gamma pp3 ! i"
    unfolding g3 using assms(3,4) same' same4 by (intro gamma_closed_form_ge_one) simp_all
  then have ge4: "1 \<le> pp_gamma pp4 ! i" by (simp add: same4)
  show ?thesis
  proof (cases "i < length (pp_gamma pp4) \<and> env_max_gamma env \<le> pp_gamma pp4 ! i")
    case True
    then show ?thesis using fr(5) [of i] by simp
  next
    case False
    then show ?thesis using fr(6) [of i] ge4 by simp
  qed
qed


theorem gamma_after_freeze_witness:
  "solve_particles (uniform_externals 3 1) (three_cell_env 3 ''rk4'') 2 two_particles_at_rest
     = Inr ([0, 1], two_particles_at_rest\<lparr>a2_pp := [3, 3], psi_pp := [1, 1], pp_gamma := [2, 2]\<rparr>) \<and>
   (0 :: nat) < length (pp_pr (two_particles_at_rest\<lparr>a2_pp := [3, 3], psi_pp := [1, 1], pp_gamma := [2, 2]\<rparr>)) \<and>
   (0 :: real) < 1 + psi_pp (two_particles_at_rest\<lparr>a2_pp := [3, 3], psi_pp := [1, 1], pp_gamma := [2, 2]\<rparr>) ! 0 \<and>
   (0 :: real) \<le> a2_pp (two_particles_at_rest\<lparr>a2_pp := [3, 3], psi_pp := [1, 1], pp_gamma := [2, 2]\<rparr>) ! 0 \<and>
   (1 :: real) \<le> pp_gamma (two_particles_at_rest\<lparr>a2_pp := [3, 3], psi_pp := [1, 1], pp_gamma := [2, 2]\<rparr>) ! 0"
proof -
  let ?pp' = "two_particles_at_rest\<lparr>a2_pp := [3, 3], psi_pp := [1, 1], pp_gamma := [2, 2]\<rparr>"
  have run: "solve_particles (uniform_externals 3 1) (three_cell_env 3 ''rk4'') 2 two_particles_at_rest
     = Inr ([0, 1], ?pp')"
    by code_simp
  have h: "(0 :: nat) < length (pp_pr ?pp')" "(0 :: real) < 1 + psi_pp ?pp' ! 0"
    "(0 :: real) \<le> a2_pp ?pp' ! 0"
    by (simp_all add: two_particles_at_rest_def)
  show ?thesis
    using run h gamma_after_freeze [OF run h] by simp
qed

text \<open>
  Claim C2 as stated fails: with \<open>psi = -2\<close> at the particles (and no laser), the update
  gives \<open>gamma = -1\<close>, which is below \<open>max_gamma = 10\<close>, so the freeze step leaves it.
\<close>

theorem gamma_below_one_after_freeze:
  "solve_particles (uniform_externals 0 (- 2)) (three_cell_env 3 ''rk4'') 2 two_particles_at_rest
     = Inr ([0, 1], two_particles_at_rest\<lparr>psi_pp := [- 2, - 2], pp_gamma := [- 1, - 1]\<rparr>) \<and>
   pp_gamma (two_particles_at_rest\<lparr>psi_pp := [- 2, - 2], pp_gamma := [- 1, - 1]\<rparr>) ! 0 < 1"
proof -
  have "solve_particles (uniform_externals 0 (- 2)) (three_cell_env 3 ''rk4'') 2 two_particles_at_rest
     = Inr ([0, 1], two_particles_at_rest\<lparr>psi_pp := [- 2, - 2], pp_gamma := [- 1, - 1]\<rparr>)"
    by code_simp
  then show ?thesis by (simp add: two_particles_at_rest_def)
qed

subsection \<open>The main loop\<close>




lemma slice_fields_Inr:
  assumes "slice_fields ext env step st = Inr (xi, st')"
  obtains idx pp psi b_theta_bar w_rho w_chi r_first where
    "py_get (env_xi_fld env) (- 1 - int step) = Inr xi"
    "solve_particles ext env xi (particles st) = Inr (idx, pp)"
    "set_row_interior (psi_grid st) (- 1 - int step - 2)
       (calculate_psi ext (env_r_fld env) (pp_r pp) (pp_q pp) idx (pp_r_max_plasma pp)
          (pp_parabolic_coefficient pp)) = Inr psi"
    "set_row_interior (b_theta_bar_grid st) (- 1 - int step - 2)
       (calculate_b_theta ext (env_r_fld env) (pp_r pp) (pp_pr pp) (pp_q pp) (pp_gamma pp)
          (psi_pp pp) (dr_psi_pp pp) (dxi_psi_pp pp) (b_theta_0_pp pp) (nabla_a2_pp pp) idx)
       = Inr b_theta_bar"
    "plasma_weights (env_dr env) pp = Inr (w_rho, w_chi)"
    "py_get (env_r_fld env) 0 = Inr r_first"
    "st' = st\<lparr>particles := pp, psi_grid := psi, b_theta_bar_grid := b_theta_bar,
               rho_grid := deposit_plasma_particles ext xi (pp_r pp) w_rho (env_xi_min env) r_first
                  (env_n_xi env) (env_n_r env) (env_dxi env) (env_dr env) (rho_grid st)
                  (env_p_shape env),
               chi_grid := deposit_plasma_particles ext xi (pp_r pp) w_chi (env_xi_min env) r_first
                  (env_n_xi env) (env_n_r env) (env_dxi env) (env_dr env) (chi_grid st)
                  (env_p_shape env)\<rparr>"
  using assms
  by (auto simp: slice_fields_def Let_def bind_err_Inr_iff)








subsection \<open>Guard cells and interior of a grid\<close>

lemma has_shapeD:
  assumes "has_shape a m n"
  shows "length a = m" "\<And>j. j < m \<Longrightarrow> length (a ! j) = n"
  using assms by (auto simp: has_shape_def)

lemma has_shapeI:
  assumes "length a = m" "\<And>j. j < m \<Longrightarrow> length (a ! j) = n"
  shows "has_shape a m n"
  using assms by (auto simp: has_shape_def in_set_conv_nth)

lemma slice_2_m2_length: "length xs = n + 4 \<Longrightarrow> length (slice_2_m2 xs) = n"
  by (simp add: slice_2_m2_def)

lemma slice_2_m2_nth: "length xs = n + 4 \<Longrightarrow> k < n \<Longrightarrow> slice_2_m2 xs ! k = xs ! (k + 2)"
  by (simp add: slice_2_m2_def add.commute)

lemma interior_cells_shape:
  assumes "has_shape a (m + 4) (n + 4)"
  shows "has_shape (interior_cells a) m n"
proof (rule has_shapeI)
  show len: "length (interior_cells a) = m"
    using has_shapeD(1) [OF assms] by (simp add: interior_cells_def slice_2_m2_length)
  fix j assume j: "j < m"
  have "interior_cells a ! j = slice_2_m2 (a ! (j + 2))"
    using has_shapeD(1) [OF assms] j
    by (simp add: interior_cells_def slice_2_m2_length slice_2_m2_nth)
  then show "length (interior_cells a ! j) = n"
    using has_shapeD(2) [OF assms, of "j + 2"] j by (simp add: slice_2_m2_length)
qed

lemma interior_cells_nth:
  assumes "has_shape a (m + 4) (n + 4)" "j < m" "k < n"
  shows "interior_cells a ! j ! k = a ! (j + 2) ! (k + 2)"
proof -
  have "interior_cells a ! j = slice_2_m2 (a ! (j + 2))"
    using has_shapeD(1) [OF assms(1)] assms(2)
    by (simp add: interior_cells_def slice_2_m2_length slice_2_m2_nth)
  then show ?thesis
    using has_shapeD(2) [OF assms(1), of "j + 2"] assms(2,3) by (simp add: slice_2_m2_nth)
qed

lemma set_slice_2_m2_length:
  "length xs = n + 4 \<Longrightarrow> length vs = n \<Longrightarrow> length (set_slice_2_m2 xs vs) = n + 4"
  by (simp add: set_slice_2_m2_def)

lemma set_slice_2_m2_nth:
  assumes "length xs = n + 4" "length vs = n" "i < n + 4"
  shows "set_slice_2_m2 xs vs ! i = (if 2 \<le> i \<and> i < n + 2 then vs ! (i - 2) else xs ! i)"
proof -
  have eq: "set_slice_2_m2 xs vs = take 2 xs @ vs @ drop (n + 2) xs"
    using assms(1) by (simp add: set_slice_2_m2_def)
  have l2: "length (take 2 xs) = 2" using assms(1) by simp
  consider "i < 2" | "2 \<le> i" "i < n + 2" | "n + 2 \<le> i" by linarith
  then show ?thesis
  proof cases
    case 1
    then show ?thesis using assms by (simp add: eq nth_append)
  next
    case 2
    then have i2: "i - 2 < n" and ni: "\<not> i < 2" by linarith+
    have "(take 2 xs @ vs @ drop (n + 2) xs) ! i = (vs @ drop (n + 2) xs) ! (i - 2)"
      using ni l2 by (simp add: nth_append)
    also have "\<dots> = vs ! (i - 2)" using i2 assms(2) by (simp add: nth_append)
    finally show ?thesis using 2 by (simp add: eq)
  next
    case 3
    then have ni: "\<not> i < 2" and nv: "\<not> i - 2 < n" and sum: "n + 2 + (i - 2 - n) = i"
      by linarith+
    have "(take 2 xs @ vs @ drop (n + 2) xs) ! i = (vs @ drop (n + 2) xs) ! (i - 2)"
      using ni l2 by (simp add: nth_append)
    also have "\<dots> = drop (n + 2) xs ! (i - 2 - n)"
      using nv assms(2) by (simp add: nth_append)
    also have "\<dots> = xs ! (n + 2 + (i - 2 - n))"
      using assms(1) by (intro nth_drop) simp
    also have "\<dots> = xs ! i" by (simp only: sum)
    finally show ?thesis using 3 by (simp add: eq)
  qed
qed

lemma broadcast_to_same: "length vs = n \<Longrightarrow> broadcast_to n vs = Some vs"
  by (simp add: broadcast_to_def)

lemma set_interior_shape:
  assumes a: "has_shape a (m + 4) (n + 4)" and b: "has_shape b m n"
  shows "\<exists>c. set_interior a b = Inr c \<and> has_shape c (m + 4) (n + 4) \<and>
     (\<forall>j < m + 4. \<forall>k < n + 4.
        c ! j ! k = (if 2 \<le> j \<and> j < m + 2 \<and> 2 \<le> k \<and> k < n + 2 then b ! (j - 2) ! (k - 2)
                     else a ! j ! k))"
proof -
  let ?rows = "slice_2_m2 a"
  let ?new = "map2 (\<lambda>row v. set_slice_2_m2 row (the (broadcast_to (length row - 4) v))) ?rows b"
  let ?c = "set_slice_2_m2 a ?new"
  have la: "length a = m + 4" and lb: "length b = m"
    using has_shapeD(1) [OF a] has_shapeD(1) [OF b] by simp_all
  have lrows: "length ?rows = m" using la by (rule slice_2_m2_length)
  have rows: "?rows ! j = a ! (j + 2)" if "j < m" for j
    using la that by (rule slice_2_m2_nth)
  have lrow: "length (?rows ! j) = n + 4" if "j < m" for j
    using rows [OF that] has_shapeD(2) [OF a, of "j + 2"] that by simp
  have lbj: "length (b ! j) = n" if "j < m" for j
    using has_shapeD(2) [OF b that] .
  have ok: "list_all2 (\<lambda>row v. broadcast_to (length row - 4) v \<noteq> None) ?rows b"
    using lrows lb lrow lbj by (simp add: list_all2_conv_all_nth broadcast_to_same)
  have run: "set_interior a b = Inr ?c"
    using ok lrows lb by (simp add: set_interior_def Let_def broadcast_to_same)
  have lnew: "length ?new = m" using lrows lb by simp
  have new: "?new ! j = set_slice_2_m2 (a ! (j + 2)) (b ! j)" if "j < m" for j
    using that lrows lb lrow [OF that] lbj [OF that] rows [OF that]
    by (simp add: broadcast_to_same)
  have lc: "length ?c = m + 4" using la lnew by (rule set_slice_2_m2_length)
  have cj: "?c ! j = (if 2 \<le> j \<and> j < m + 2 then ?new ! (j - 2) else a ! j)" if "j < m + 4" for j
    using la lnew that by (rule set_slice_2_m2_nth)
  have val: "?c ! j ! k = (if 2 \<le> j \<and> j < m + 2 \<and> 2 \<le> k \<and> k < n + 2 then b ! (j - 2) ! (k - 2)
                     else a ! j ! k)"
    and lcj: "length (?c ! j) = n + 4"
    if j: "j < m + 4" and k: "k < n + 4" for j k
  proof -
    have laj: "length (a ! j) = n + 4" using has_shapeD(2) [OF a j] .
    show "length (?c ! j) = n + 4"
    proof (cases "2 \<le> j \<and> j < m + 2")
      case True
      then have j2: "j - 2 < m" "j - 2 + 2 = j" by linarith+
      have "?new ! (j - 2) = set_slice_2_m2 (a ! j) (b ! (j - 2))"
        using new [OF j2(1)] by (simp only: j2(2))
      moreover have "?c ! j = ?new ! (j - 2)"
        using cj [OF j] True by (simp only: if_True simp_thms)
      ultimately have "?c ! j = set_slice_2_m2 (a ! j) (b ! (j - 2))"
        by (simp only:)
      then show ?thesis using laj lbj [OF j2(1)] by (simp add: set_slice_2_m2_length)
    next
      case False
      have "?c ! j = a ! j" unfolding cj [OF j] using False by (rule if_not_P)
      then show ?thesis using laj by simp
    qed
    show "?c ! j ! k = (if 2 \<le> j \<and> j < m + 2 \<and> 2 \<le> k \<and> k < n + 2 then b ! (j - 2) ! (k - 2)
                     else a ! j ! k)"
    proof (cases "2 \<le> j \<and> j < m + 2")
      case True
      then have j2: "j - 2 < m" "j - 2 + 2 = j" by linarith+
      have "?new ! (j - 2) = set_slice_2_m2 (a ! j) (b ! (j - 2))"
        using new [OF j2(1)] by (simp only: j2(2))
      moreover have "?c ! j = ?new ! (j - 2)"
        using cj [OF j] True by (simp only: if_True simp_thms)
      ultimately have "?c ! j = set_slice_2_m2 (a ! j) (b ! (j - 2))"
        by (simp only:)
      moreover have "set_slice_2_m2 (a ! j) (b ! (j - 2)) ! k
          = (if 2 \<le> k \<and> k < n + 2 then b ! (j - 2) ! (k - 2) else a ! j ! k)"
        using laj lbj [OF j2(1)] k by (intro set_slice_2_m2_nth) simp_all
      ultimately show ?thesis using True by simp
    next
      case False
      have "?c ! j = a ! j" unfolding cj [OF j] using False by (rule if_not_P)
      then show ?thesis using False by auto
    qed
  qed
  have "has_shape ?c (m + 4) (n + 4)"
    using lc lcj [where k = 0] by (intro has_shapeI) simp_all
  then show ?thesis using run val by blast
qed

lemma broadcast_to_Some_length: "broadcast_to n vs = Some ws \<Longrightarrow> length ws = n"
  by (auto simp: broadcast_to_def split: if_splits)

lemma set_slice_2_m2_keeps_length:
  "length vs = length xs - 4 \<Longrightarrow> length (set_slice_2_m2 xs vs) = length xs"
  by (auto simp: set_slice_2_m2_def)

lemma py_index_Some: "py_index n i = Some k \<Longrightarrow> k < n"
  by (auto simp: py_index_def Let_def split: if_splits)

lemma set_row_interior_lengths:
  assumes "set_row_interior a j v = Inr c"
  shows "map length c = map length a"
proof -
  from assms obtain k v' where k: "py_index (length a) j = Some k"
    and v': "broadcast_to (length (a ! k) - 4) v = Some v'"
    and c: "c = a[k := set_slice_2_m2 (a ! k) v']"
    by (auto simp: set_row_interior_def split: option.splits)
  have "length (set_slice_2_m2 (a ! k) v') = length (a ! k)"
    using broadcast_to_Some_length [OF v'] by (rule set_slice_2_m2_keeps_length)
  moreover have "k < length a" using k by (rule py_index_Some)
  ultimately show ?thesis
    unfolding c by (simp add: map_update list_update_same_conv)
qed

lemma set_interior_lengths:
  assumes "set_interior a b = Inr c"
  shows "map length c = map length a"
proof -
  let ?rows = "slice_2_m2 a"
  let ?f = "\<lambda>row v. set_slice_2_m2 row (the (broadcast_to (length row - 4) v))"
  from assms obtain b' where b': "broadcast_to (length ?rows) b = Some b'"
    and ok: "list_all2 (\<lambda>row v. broadcast_to (length row - 4) v \<noteq> None) ?rows b'"
    and c: "c = set_slice_2_m2 a (map2 ?f ?rows b')"
    by (auto simp: set_interior_def Let_def split: option.splits if_splits)
  have lb: "length b' = length ?rows" using b' by (rule broadcast_to_Some_length)
  have new: "map length (map2 ?f ?rows b') = map length ?rows"
  proof (rule nth_equalityI)
    show "length (map length (map2 ?f ?rows b')) = length (map length ?rows)" using lb by simp
    fix j assume "j < length (map length (map2 ?f ?rows b'))"
    then have j: "j < length ?rows" using lb by simp
    then have "broadcast_to (length (?rows ! j) - 4) (b' ! j) \<noteq> None"
      using ok by (simp add: list_all2_conv_all_nth)
    then obtain ws where ws: "broadcast_to (length (?rows ! j) - 4) (b' ! j) = Some ws" by blast
    have "length (set_slice_2_m2 (?rows ! j) ws) = length (?rows ! j)"
      using broadcast_to_Some_length [OF ws] by (rule set_slice_2_m2_keeps_length)
    then show "map length (map2 ?f ?rows b') ! j = map length ?rows ! j"
      using j lb ws by simp
  qed
  show ?thesis
  proof (cases "length a < 4")
    case True
    then show ?thesis by (simp add: c set_slice_2_m2_def)
  next
    case False
    then have split: "a = take 2 a @ ?rows @ drop (length a - 2) a"
    proof -
      have "length a - 4 + 2 = length a - 2" using False by linarith
      then have "drop (length a - 2) a = drop (length a - 4) (drop 2 a)"
        by (simp only: drop_drop)
      then have "?rows @ drop (length a - 2) a
          = take (length a - 4) (drop 2 a) @ drop (length a - 4) (drop 2 a)"
        by (simp only: slice_2_m2_def)
      also have "\<dots> = drop 2 a" by (rule append_take_drop_id)
      finally show ?thesis by simp
    qed
    have "map length c = map length (take 2 a) @ map length (map2 ?f ?rows b')
        @ map length (drop (length a - 2) a)"
      using False by (simp add: c set_slice_2_m2_def)
    also have "\<dots> = map length (take 2 a @ ?rows @ drop (length a - 2) a)"
      by (simp only: new map_append)
    also have "\<dots> = map length a" using split by simp
    finally show ?thesis .
  qed
qed

subsection \<open>The beam source\<close>

lemma cumsum_from_length: "length (cumsum_from acc xs) = length xs"
  by (induction xs arbitrary: acc) auto

lemma cumsum_from_nth:
  "k < length xs \<Longrightarrow> cumsum_from acc xs ! k = acc + (\<Sum>m\<le>k. xs ! m)"
proof (induction xs arbitrary: acc k)
  case Nil
  then show ?case by simp
next
  case (Cons x xs)
  show ?case
  proof (cases k)
    case 0
    then show ?thesis by simp
  next
    case (Suc k')
    then have "k' < length xs" using Cons.prems by simp
    then have "cumsum_from (acc + x) xs ! k' = acc + x + (\<Sum>m\<le>k'. xs ! m)"
      by (rule Cons.IH)
    then show ?thesis
      by (simp add: Suc sum.atMost_Suc_shift del: sum.atMost_Suc)
  qed
qed

lemma np_cumsum_nth: "k < length xs \<Longrightarrow> np_cumsum xs ! k = (\<Sum>m\<le>k. xs ! m)"
  by (simp add: np_cumsum_def cumsum_from_nth)

lemma np_zeros2_shape:
  assumes "0 \<le> m" "0 \<le> n"
  shows "np_zeros2 (m + 4) (n + 4) = Inr (replicate (nat m + 4) (replicate (nat n + 4) 0))"
    "has_shape (replicate (nat m + 4) (replicate (nat n + 4) 0)) (nat m + 4) (nat n + 4)"
proof -
  have "nat (m + 4) = nat m + 4" "nat (n + 4) = nat n + 4" using assms by linarith+
  then show "np_zeros2 (m + 4) (n + 4) = Inr (replicate (nat m + 4) (replicate (nat n + 4) 0))"
    using assms by (simp add: np_zeros2_def)
  show "has_shape (replicate (nat m + 4) (replicate (nat n + 4) 0)) (nat m + 4) (nat n + 4)"
    by (simp add: has_shape_def)
qed

lemma beam_field_from_charge_values:
  assumes "0 \<le> n_xi" "1 \<le> n_r" and q: "has_shape q_dist (nat n_xi) (nat n_r)"
  shows "\<exists>b. beam_field_from_charge n_r n_xi dr q_dist = Inr b \<and>
     has_shape b (nat n_xi + 4) (nat n_r + 4) \<and>
     (\<forall>j < nat n_xi. \<forall>k < nat n_r.
        b ! (j + 2) ! (k + 2) =
          ((\<Sum>m\<le>k. q_dist ! j ! m) - q_dist ! j ! k / 2 - (if k = 0 then q_dist ! j ! 0 / 4 else 0))
            * dr / \<bar>(0.5 + real k) * dr\<bar>) \<and>
     (\<forall>j < nat n_xi + 4. \<forall>k < nat n_r + 4.
        j < 2 \<or> nat n_xi + 2 \<le> j \<or> k < 2 \<or> nat n_r + 2 \<le> k \<longrightarrow> b ! j ! k = 0)"
proof -
  let ?m = "nat n_xi" and ?n = "nat n_r"
  let ?z = "replicate (?m + 4) (replicate (?n + 4) (0::real))"
  define rg where "rg = map (\<lambda>k. (0.5 + real k) * dr) [0..<?n]"
  define half where "half = map (map (\<lambda>v. v / 2)) q_dist"
  define subs where "subs = map2 (\<lambda>s qrow. s[0 := s ! 0 + qrow ! 0 / 4]) half q_dist"
  define field where "field = map2 (\<lambda>qrow s. map (\<lambda>(c, s', rg). (c - s') * dr / \<bar>rg\<bar>)
                                  (zip (np_cumsum qrow) (zip s rg))) q_dist subs"
  have npos: "0 < ?n" using assms(2) by simp
  have lq: "length q_dist = ?m" and lqj: "\<And>j. j < ?m \<Longrightarrow> length (q_dist ! j) = ?n"
    using has_shapeD [OF q] by simp_all
  have lrg: "length rg = ?n" by (simp add: rg_def)
  have rows: "\<forall>row \<in> set q_dist. length row = length rg"
    using q lrg by (simp add: has_shape_def)
  have z: "np_zeros2 (n_xi + 4) (n_r + 4) = Inr ?z" "has_shape ?z (?m + 4) (?n + 4)"
    using np_zeros2_shape [of n_xi n_r] assms by simp_all
  have quarter: "add_quarter_of_first n_r half q_dist = Inr subs"
    using assms(2) by (simp add: add_quarter_of_first_def subs_def)
  have lsubs_len: "length subs = ?m" by (simp add: subs_def half_def lq)
  have subs_j: "subs ! j = (map (\<lambda>v. v / 2) (q_dist ! j))[0 := q_dist ! j ! 0 / 2 + q_dist ! j ! 0 / 4]"
    if "j < ?m" for j
    using that lq lqj [OF that] npos by (simp add: subs_def half_def)
  have lsj: "length (subs ! j) = ?n" if "j < ?m" for j
    using lqj [OF that] by (simp add: subs_j [OF that])
  have lsubs: "map length subs = map length q_dist"
  proof (rule nth_equalityI)
    show "length (map length subs) = length (map length q_dist)" by (simp add: lsubs_len lq)
    fix j assume "j < length (map length subs)"
    then have j: "j < ?m" by (simp add: lsubs_len)
    then show "map length subs ! j = map length q_dist ! j"
      using lsj [OF j] lqj [OF j] lsubs_len lq by simp
  qed
  have integ: "integrate_field q_dist subs dr rg = Inr field"
    using rows lsubs by (simp add: integrate_field_def field_def)
  have run: "beam_field_from_charge n_r n_xi dr q_dist = set_interior ?z field"
    by (simp only: beam_field_from_charge_def z(1) bind_err.simps Let_def half_def [symmetric]
        rg_def [symmetric] quarter integ)
  have subs_nth: "subs ! j ! k = q_dist ! j ! k / 2 + (if k = 0 then q_dist ! j ! 0 / 4 else 0)"
    if "j < ?m" "k < ?n" for j k
    using that lqj [OF that(1)] by (simp add: subs_j [OF that(1)] nth_list_update)
  have fj: "field ! j = map (\<lambda>(c, s', rg). (c - s') * dr / \<bar>rg\<bar>)
        (zip (np_cumsum (q_dist ! j)) (zip (subs ! j) rg))"
    if "j < ?m" for j
    using that lq lsubs_len by (simp add: field_def)
  have lc: "length (np_cumsum (q_dist ! j)) = ?n" if "j < ?m" for j
    using lqj [OF that] by (simp add: np_cumsum_def cumsum_from_length)
  have lfj: "length (field ! j) = ?n" if j: "j < ?m" for j
    using lc [OF j] lsj [OF j] lrg by (simp add: fj [OF j])
  have fld: "field ! j ! k =
      ((\<Sum>m\<le>k. q_dist ! j ! m) - q_dist ! j ! k / 2 - (if k = 0 then q_dist ! j ! 0 / 4 else 0))
        * dr / \<bar>(0.5 + real k) * dr\<bar>"
    if j: "j < ?m" and k: "k < ?n" for j k
  proof -
    have "field ! j ! k = (np_cumsum (q_dist ! j) ! k - subs ! j ! k) * dr / \<bar>rg ! k\<bar>"
      using lc [OF j] lsj [OF j] lrg k by (simp add: fj [OF j])
    also have "np_cumsum (q_dist ! j) ! k = (\<Sum>m\<le>k. q_dist ! j ! m)"
      using k lqj [OF j] by (simp add: np_cumsum_nth)
    also have "rg ! k = (0.5 + real k) * dr" using k by (simp add: rg_def)
    finally show ?thesis
      by (simp add: subs_nth [OF j k] diff_diff_eq)
  qed
  have fshape: "has_shape field ?m ?n"
    using lq lsubs_len lfj by (intro has_shapeI) (simp_all add: field_def)
  from set_interior_shape [OF z(2) fshape] obtain b where
    b: "set_interior ?z field = Inr b" "has_shape b (?m + 4) (?n + 4)"
      "\<And>j k. j < ?m + 4 \<Longrightarrow> k < ?n + 4 \<Longrightarrow>
         b ! j ! k = (if 2 \<le> j \<and> j < ?m + 2 \<and> 2 \<le> k \<and> k < ?n + 2 then field ! (j - 2) ! (k - 2)
                      else ?z ! j ! k)"
    by blast
  have inner: "b ! (j + 2) ! (k + 2) =
      ((\<Sum>m\<le>k. q_dist ! j ! m) - q_dist ! j ! k / 2 - (if k = 0 then q_dist ! j ! 0 / 4 else 0))
        * dr / \<bar>(0.5 + real k) * dr\<bar>"
    if "j < ?m" "k < ?n" for j k
    using b(3) [of "j + 2" "k + 2"] that fld [OF that] by simp
  have guard: "b ! j ! k = 0"
    if "j < ?m + 4" "k < ?n + 4" "j < 2 \<or> ?m + 2 \<le> j \<or> k < 2 \<or> ?n + 2 \<le> k" for j k
  proof -
    have "\<not> (2 \<le> j \<and> j < ?m + 2 \<and> 2 \<le> k \<and> k < ?n + 2)" using that(3) by linarith
    then have "b ! j ! k = ?z ! j ! k" using b(3) [OF that(1,2)] by (simp only: if_False)
    then show ?thesis using that(1,2) by simp
  qed
  show ?thesis
    using run b(1,2) inner guard by (intro exI [of _ b]) simp
qed

text \<open>
  Claim C5. For a cell width \<open>dr > 0\<close> and a deposited charge distribution \<open>q_dist\<close> of
  \<open>n_xi\<close> rows and \<open>n_r >= 1\<close> columns, \<open>calculate_beam_source_from_particles\<close> returns an
  array of shape \<open>(n_xi + 4, n_r + 4)\<close> whose interior cell of row \<open>j\<close> and radial cell \<open>k\<close>
  is the sum of \<open>q_dist[j, m]\<close> over \<open>m <= k\<close>, minus \<open>q_dist[j, k]/2\<close>, minus a further
  \<open>q_dist[j, 0]/4\<close> when \<open>k = 0\<close>, times \<open>dr\<close>, divided by the cell-centre radius
  \<open>r_k = (0.5 + k) * dr\<close>; every guard cell is zero.
\<close>

theorem beam_source_field:
  assumes "0 < dr" "0 \<le> n_xi" "1 \<le> n_r"
    and "deposit_beam_charge ext x y xi q n_p n_r n_xi r_min xi_min dr dxi p_shape = Inr q_dist"
    and "has_shape q_dist (nat n_xi) (nat n_r)"
  shows "\<exists>b. calculate_beam_source_from_particles ext x y xi q n_p n_r n_xi r_min xi_min dr dxi p_shape
         = Inr b \<and>
     has_shape b (nat n_xi + 4) (nat n_r + 4) \<and>
     (\<forall>j < nat n_xi. \<forall>k < nat n_r.
        b ! (j + 2) ! (k + 2) =
          ((\<Sum>m\<le>k. q_dist ! j ! m) - q_dist ! j ! k / 2 - (if k = 0 then q_dist ! j ! 0 / 4 else 0))
            * dr / ((0.5 + real k) * dr)) \<and>
     (\<forall>j < nat n_xi + 4. \<forall>k < nat n_r + 4.
        j < 2 \<or> nat n_xi + 2 \<le> j \<or> k < 2 \<or> nat n_r + 2 \<le> k \<longrightarrow> b ! j ! k = 0)"
proof -
  have run: "calculate_beam_source_from_particles ext x y xi q n_p n_r n_xi r_min xi_min dr dxi p_shape
      = beam_field_from_charge n_r n_xi dr q_dist"
    by (simp add: calculate_beam_source_from_particles_def assms(4))
  have radius: "\<bar>(0.5 + real k) * dr\<bar> = (0.5 + real k) * dr" for k
    using assms(1) by simp
  show ?thesis
    using beam_field_from_charge_values [OF assms(2,3,5), of dr]
    unfolding run radius by simp
qed

theorem beam_source_field_witness:
  "(0 :: real) < 1 \<and> (0 :: int) \<le> 1 \<and> (1 :: int) \<le> 3 \<and>
   deposit_beam_charge axis_charge_externals [] [] [] [] 1 3 1 (1/2) 0 1 1 ''cubic'' = Inr [[4, 0, 0]] \<and>
   has_shape [[4, 0, 0]] (nat 1) (nat 3) \<and>
   (\<exists>b. calculate_beam_source_from_particles axis_charge_externals [] [] [] [] 1 3 1 (1/2) 0 1 1 ''cubic''
          = Inr b \<and>
        b ! 2 ! 2 = 2 \<and> b ! 2 ! 3 = 8 / 3 \<and> b ! 2 ! 4 = 8 / 5 \<and> b ! 0 ! 0 = 0 \<and> b ! 2 ! 6 = 0)"
proof -
  have dep: "deposit_beam_charge axis_charge_externals [] [] [] [] 1 3 1 (1/2) 0 1 1 ''cubic''
      = Inr [[4, 0, 0]]"
    by code_simp
  have sh: "has_shape [[4, 0, 0]] (nat 1) (nat 3)"
    by (simp add: has_shape_def)
  from beam_source_field [OF _ _ _ dep sh] obtain b where
    b: "calculate_beam_source_from_particles axis_charge_externals [] [] [] [] 1 3 1 (1/2) 0 1 1 ''cubic''
          = Inr b"
    and inner: "\<forall>j < nat 1. \<forall>k < nat 3.
        b ! (j + 2) ! (k + 2) =
          ((\<Sum>m\<le>k. [[4, 0, 0 :: real]] ! j ! m) - [[4, 0, 0]] ! j ! k / 2
            - (if k = 0 then [[4, 0, 0]] ! j ! 0 / 4 else 0)) * 1 / ((0.5 + real k) * 1)"
    and guard: "\<forall>j < nat 1 + 4. \<forall>k < nat 3 + 4.
        j < 2 \<or> nat 1 + 2 \<le> j \<or> k < 2 \<or> nat 3 + 2 \<le> k \<longrightarrow> b ! j ! k = 0"
    by auto
  have "b ! (0 + 2) ! (0 + 2) = 2" using inner by simp
  moreover have "b ! (0 + 2) ! (1 + 2) = 8 / 3" using inner by simp
  moreover have "b ! (0 + 2) ! (2 + 2) = 8 / 5" using inner by (simp add: eval_nat_numeral)
  moreover have "b ! 0 ! 0 = 0" "b ! 2 ! 6 = 0" using guard by simp_all
  ultimately have "b ! 2 ! 2 = 2 \<and> b ! 2 ! 3 = 8 / 3 \<and> b ! 2 ! 4 = 8 / 5 \<and> b ! 0 ! 0 = 0 \<and> b ! 2 ! 6 = 0"
    by (simp add: eval_nat_numeral)
  then show ?thesis using dep sh b by simp
qed

subsection \<open>The set-up\<close>

lemma isl_bind_err: "isl (bind_err m f) \<longleftrightarrow> isl m \<or> (\<exists>x. m = Inr x \<and> isl (f x))"
  by (cases m) auto

lemma has_shape_same_lengths:
  assumes "has_shape a m n" "map length b = map length a"
  shows "has_shape b m n"
proof (rule has_shapeI)
  have lb: "length b = length a" using assms(2) by (metis length_map)
  show "length b = m" using lb has_shapeD(1) [OF assms(1)] by simp
  fix j assume j: "j < m"
  then have "map length b ! j = map length a ! j" using assms(2) by simp
  then have "length (b ! j) = length (a ! j)"
    using j lb has_shapeD(1) [OF assms(1)] by simp
  then show "length (b ! j) = n" using has_shapeD(2) [OF assms(1) j] by simp
qed



lemma py_get_empty: "py_get [] i = Inl IndexError"
  by (simp add: py_get_def py_index_def Let_def)


lemma setup_fails_without_cells:
  assumes "n_r \<le> 0 \<or> n_xi \<le> 0"
  shows "isl (wakefield_setup ext laser_a2 beam_part r_max xi_min xi_max n_r n_xi ppc n_p r_max_plasma
                parabolic_coefficient p_shape max_gamma plasma_pusher)"
proof -
  have lin: "isl (np_linspace a b num) \<or> (\<exists>xs. np_linspace a b num = Inr xs \<and> length xs = nat num)"
    for a b num
    by (simp add: np_linspace_def)
  have get: "isl (py_get xs 0)" if "length xs = nat k" "k \<le> 0" for xs :: "real list" and k
    using that by (simp add: py_get_empty)
  show ?thesis
    unfolding wakefield_setup_def Let_def isl_bind_err
    using assms lin get
    by (metis (no_types, lifting) sum.collapse(2))
qed






subsection \<open>The derived fields\<close>

lemma gradient_at_cong:
  assumes "3 \<le> n" "j < n" "\<And>a. a < n \<Longrightarrow> g a = g' a"
  shows "gradient_at h g n j = gradient_at h g' n j"
proof -
  have "g 0 = g' 0" "g 1 = g' 1" "g 2 = g' 2" "g (n - 3) = g' (n - 3)" "g (n - 2) = g' (n - 2)"
    "g (n - 1) = g' (n - 1)"
    using assms(1) by (auto intro!: assms(3))
  moreover have "g (j + 1) = g' (j + 1)" "g (j - 1) = g' (j - 1)" if "j \<noteq> 0" "j \<noteq> n - 1"
    using that assms(2) by (auto intro!: assms(3))
  ultimately show ?thesis by (simp add: gradient_at_def)
qed

lemma np_gradient2_values:
  assumes f: "has_shape f m n" and "3 \<le> m" "3 \<le> n"
  shows "\<exists>g0 g1. np_gradient2 f h0 h1 = Inr (g0, g1) \<and> has_shape g0 m n \<and> has_shape g1 m n \<and>
     (\<forall>j < m. \<forall>k < n. g0 ! j ! k = gradient_at h0 (\<lambda>a. f ! a ! k) m j \<and>
                         g1 ! j ! k = gradient_at h1 (\<lambda>b. f ! j ! b) n k)"
proof -
  define g0 where "g0 = map (\<lambda>j. map (\<lambda>k. gradient_at h0 (\<lambda>a. f ! a ! k) (length f) j)
                                    [0..<length (f ! j)]) [0..<length f]"
  define g1 where "g1 = map (\<lambda>row. map (gradient_at h1 (\<lambda>b. row ! b) (length row)) [0..<length row]) f"
  have lf: "length f = m" and lfj: "\<And>j. j < m \<Longrightarrow> length (f ! j) = n"
    using has_shapeD [OF f] by simp_all
  have small: "\<not> (length f < 3 \<or> (\<exists>row \<in> set f. length row < 3))"
    using f assms(2,3) by (auto simp: has_shape_def)
  have run: "np_gradient2 f h0 h1 = Inr (g0, g1)"
    using small by (simp add: np_gradient2_def g0_def g1_def)
  have "has_shape g0 m n" using lf lfj by (intro has_shapeI) (simp_all add: g0_def)
  moreover have "has_shape g1 m n" using lf lfj by (intro has_shapeI) (simp_all add: g1_def)
  moreover have "g0 ! j ! k = gradient_at h0 (\<lambda>a. f ! a ! k) m j" if "j < m" "k < n" for j k
    using that lf lfj [OF that(1)] by (simp add: g0_def)
  moreover have "g1 ! j ! k = gradient_at h1 (\<lambda>b. f ! j ! b) n k" if "j < m" "k < n" for j k
    using that lf lfj [OF that(1)] by (simp add: g1_def)
  ultimately show ?thesis using run by blast
qed

lemma np_add2_values:
  assumes "has_shape a m n" "has_shape b m n"
  shows "\<exists>c. np_add2 a b = Inr c \<and> has_shape c m n \<and>
     (\<forall>j < m. \<forall>k < n. c ! j ! k = a ! j ! k + b ! j ! k)"
proof -
  have la: "length a = m" "\<And>j. j < m \<Longrightarrow> length (a ! j) = n"
    and lb: "length b = m" "\<And>j. j < m \<Longrightarrow> length (b ! j) = n"
    using has_shapeD [OF assms(1)] has_shapeD [OF assms(2)] by simp_all
  have "map length a = map length b"
    using la lb by (intro nth_equalityI) simp_all
  then have run: "np_add2 a b = Inr (map2 (map2 (+)) a b)" by (simp add: np_add2_def)
  have "has_shape (map2 (map2 (+)) a b) m n"
    using la lb by (intro has_shapeI) simp_all
  moreover have "map2 (map2 (+)) a b ! j ! k = a ! j ! k + b ! j ! k" if "j < m" "k < n" for j k
    using that la lb by simp
  ultimately show ?thesis using run by blast
qed

lemma map_uminus_shape:
  assumes "has_shape g m n"
  shows "has_shape (map (map uminus) g) m n"
    "\<And>j k. j < m \<Longrightarrow> k < n \<Longrightarrow> map (map uminus) g ! j ! k = - (g ! j ! k)"
proof -
  have lg: "length g = m" "\<And>j. j < m \<Longrightarrow> length (g ! j) = n"
    using has_shapeD [OF assms] by simp_all
  show "has_shape (map (map uminus) g) m n" using lg by (intro has_shapeI) simp_all
  show "\<And>j k. j < m \<Longrightarrow> k < n \<Longrightarrow> map (map uminus) g ! j ! k = - (g ! j ! k)"
    using lg by simp
qed

text \<open>
  The block after the loop on grids of shape \<open>(m + 4, n + 4)\<close> with \<open>m, n >= 3\<close>: the
  interior of \<open>E_z\<close> and of \<open>W_r\<close> is minus the gradient of the interior of \<open>psi\<close> along
  the slices and along the radius, \<open>B_theta = b_theta_bar + b_theta_0_mesh\<close> and
  \<open>E_r = W_r + B_theta\<close> cell by cell.
\<close>

lemma derived_fields_values:
  assumes "3 \<le> m" "3 \<le> n"
    and "has_shape (psi_grid st) (m + 4) (n + 4)" "has_shape (E_z_grid st) (m + 4) (n + 4)"
    and "has_shape (W_r_grid st) (m + 4) (n + 4)" "has_shape (b_theta_bar_grid st) (m + 4) (n + 4)"
    and "has_shape (env_b_theta_0_mesh env) (m + 4) (n + 4)"
  shows "\<exists>E_r E_z B_theta W_r.
     derived_fields env st
       = Inr (rho_grid st, chi_grid st, E_r, E_z, B_theta, env_xi_fld env, env_r_fld env) \<and>
     derived_W_r env st = Inr W_r \<and>
     (\<forall>j < m. \<forall>k < n.
        E_z ! (j + 2) ! (k + 2)
          = - gradient_at (env_dxi env) (\<lambda>a. psi_grid st ! (a + 2) ! (k + 2)) m j \<and>
        W_r ! (j + 2) ! (k + 2)
          = - gradient_at (env_dr env) (\<lambda>b. psi_grid st ! (j + 2) ! (b + 2)) n k) \<and>
     (\<forall>j < m + 4. \<forall>k < n + 4.
        B_theta ! j ! k = b_theta_bar_grid st ! j ! k + env_b_theta_0_mesh env ! j ! k \<and>
        E_r ! j ! k = W_r ! j ! k + B_theta ! j ! k)"
proof -
  let ?f = "interior_cells (psi_grid st)"
  have fs: "has_shape ?f m n" using assms(3) by (rule interior_cells_shape)
  from np_gradient2_values [OF fs assms(1,2), of "env_dxi env" "env_dr env"]
  obtain dxi_psi dr_psi where
    gr: "np_gradient2 ?f (env_dxi env) (env_dr env) = Inr (dxi_psi, dr_psi)"
      "has_shape dxi_psi m n" "has_shape dr_psi m n"
    and gv: "\<And>j k. j < m \<Longrightarrow> k < n \<Longrightarrow>
        dxi_psi ! j ! k = gradient_at (env_dxi env) (\<lambda>a. ?f ! a ! k) m j \<and>
        dr_psi ! j ! k = gradient_at (env_dr env) (\<lambda>b. ?f ! j ! b) n k"
    by blast
  from set_interior_shape [OF assms(4) map_uminus_shape(1) [OF gr(2)]]
  obtain E_z where ez: "set_interior (E_z_grid st) (map (map uminus) dxi_psi) = Inr E_z"
    and ezv: "\<And>j k. j < m + 4 \<Longrightarrow> k < n + 4 \<Longrightarrow>
        E_z ! j ! k = (if 2 \<le> j \<and> j < m + 2 \<and> 2 \<le> k \<and> k < n + 2
                       then map (map uminus) dxi_psi ! (j - 2) ! (k - 2) else E_z_grid st ! j ! k)"
    by blast
  from set_interior_shape [OF assms(5) map_uminus_shape(1) [OF gr(3)]]
  obtain W_r where wr: "set_interior (W_r_grid st) (map (map uminus) dr_psi) = Inr W_r"
    and wrs: "has_shape W_r (m + 4) (n + 4)"
    and wrv: "\<And>j k. j < m + 4 \<Longrightarrow> k < n + 4 \<Longrightarrow>
        W_r ! j ! k = (if 2 \<le> j \<and> j < m + 2 \<and> 2 \<le> k \<and> k < n + 2
                       then map (map uminus) dr_psi ! (j - 2) ! (k - 2) else W_r_grid st ! j ! k)"
    by blast
  from np_add2_values [OF assms(6,7)]
  obtain B_theta where bt: "np_add2 (b_theta_bar_grid st) (env_b_theta_0_mesh env) = Inr B_theta"
    and bts: "has_shape B_theta (m + 4) (n + 4)"
    and btv: "\<And>j k. j < m + 4 \<Longrightarrow> k < n + 4 \<Longrightarrow>
        B_theta ! j ! k = b_theta_bar_grid st ! j ! k + env_b_theta_0_mesh env ! j ! k"
    by blast
  from np_add2_values [OF wrs bts]
  obtain E_r where er: "np_add2 W_r B_theta = Inr E_r"
    and erv: "\<And>j k. j < m + 4 \<Longrightarrow> k < n + 4 \<Longrightarrow> E_r ! j ! k = W_r ! j ! k + B_theta ! j ! k"
    by blast
  have run: "derived_fields env st
      = Inr (rho_grid st, chi_grid st, E_r, E_z, B_theta, env_xi_fld env, env_r_fld env)"
    by (simp add: derived_fields_def gr(1) ez wr bt er)
  have runw: "derived_W_r env st = Inr W_r"
    by (simp add: derived_W_r_def gr(1) wr)
  have inner: "E_z ! (j + 2) ! (k + 2)
          = - gradient_at (env_dxi env) (\<lambda>a. psi_grid st ! (a + 2) ! (k + 2)) m j \<and>
        W_r ! (j + 2) ! (k + 2)
          = - gradient_at (env_dr env) (\<lambda>b. psi_grid st ! (j + 2) ! (b + 2)) n k"
    if j: "j < m" and k: "k < n" for j k
  proof -
    have "E_z ! (j + 2) ! (k + 2) = - (dxi_psi ! j ! k)"
      using ezv [of "j + 2" "k + 2"] j k map_uminus_shape(2) [OF gr(2) j k] by simp
    also have "dxi_psi ! j ! k = gradient_at (env_dxi env) (\<lambda>a. ?f ! a ! k) m j"
      using gv [OF j k] by simp
    also have "\<dots> = gradient_at (env_dxi env) (\<lambda>a. psi_grid st ! (a + 2) ! (k + 2)) m j"
      using assms(1) j by (rule gradient_at_cong) (simp add: interior_cells_nth [OF assms(3) _ k])
    finally have e: "E_z ! (j + 2) ! (k + 2)
          = - gradient_at (env_dxi env) (\<lambda>a. psi_grid st ! (a + 2) ! (k + 2)) m j" .
    have "W_r ! (j + 2) ! (k + 2) = - (dr_psi ! j ! k)"
      using wrv [of "j + 2" "k + 2"] j k map_uminus_shape(2) [OF gr(3) j k] by simp
    also have "dr_psi ! j ! k = gradient_at (env_dr env) (\<lambda>b. ?f ! j ! b) n k"
      using gv [OF j k] by simp
    also have "\<dots> = gradient_at (env_dr env) (\<lambda>b. psi_grid st ! (j + 2) ! (b + 2)) n k"
      using assms(2) k by (rule gradient_at_cong) (simp add: interior_cells_nth [OF assms(3) j])
    finally show ?thesis using e by simp
  qed
  show ?thesis
    using run runw inner btv erv by blast
qed

lemma derived_fields_too_small:
  assumes sh: "has_shape (psi_grid st) (m + 4) (n + 4)" and "1 \<le> m" "1 \<le> n" "m < 3 \<or> n < 3"
  shows "derived_fields env st = Inl (ValueError ''Shape of array too small to calculate a numerical gradient, at least (edge_order + 1) elements are required.'')"
proof -
  let ?f = "interior_cells (psi_grid st)"
  have fs: "has_shape ?f m n" using sh by (rule interior_cells_shape)
  have lf: "length ?f = m" and l0: "length (?f ! 0) = n"
    using has_shapeD [OF fs] assms(2) by simp_all
  have "?f ! 0 \<in> set ?f" using lf assms(2) by (intro nth_mem) simp
  then have "length ?f < 3 \<or> (\<exists>row \<in> set ?f. length row < 3)"
    using assms(4) lf l0 by auto
  then have "np_gradient2 ?f (env_dxi env) (env_dr env)
      = Inl (ValueError ''Shape of array too small to calculate a numerical gradient, at least (edge_order + 1) elements are required.'')"
    unfolding np_gradient2_def by (rule if_P)
  then show ?thesis by (simp add: derived_fields_def)
qed

text \<open>The main loop writes rows of \<open>psi\<close> and \<open>b_theta_bar\<close> and keeps their shapes; it
  does not touch \<open>W_r\<close> and \<open>E_z\<close>.\<close>

lemma slice_step_grids:
  assumes "slice_step ext env step st = Inr st'"
  shows "map length (psi_grid st') = map length (psi_grid st)"
    "map length (b_theta_bar_grid st') = map length (b_theta_bar_grid st)"
    "W_r_grid st' = W_r_grid st" "E_z_grid st' = E_z_grid st"
proof -
  from assms obtain xi st1 where sf: "slice_fields ext env step st = Inr (xi, st1)"
    and rest: "st' = st1 \<or> (\<exists>pp. st' = st1\<lparr>particles := pp\<rparr>)"
    by (auto simp: slice_step_def bind_err_Inr_iff split: if_splits)
  from sf obtain idx pp psi b_theta_bar w_rho w_chi r_first where
    p: "set_row_interior (psi_grid st) (- 1 - int step - 2)
         (calculate_psi ext (env_r_fld env) (pp_r pp) (pp_q pp) idx (pp_r_max_plasma pp)
            (pp_parabolic_coefficient pp)) = Inr psi"
    and b: "set_row_interior (b_theta_bar_grid st) (- 1 - int step - 2)
         (calculate_b_theta ext (env_r_fld env) (pp_r pp) (pp_pr pp) (pp_q pp) (pp_gamma pp)
            (psi_pp pp) (dr_psi_pp pp) (dxi_psi_pp pp) (b_theta_0_pp pp) (nabla_a2_pp pp) idx)
         = Inr b_theta_bar"
    and st1: "st1 = st\<lparr>particles := pp, psi_grid := psi, b_theta_bar_grid := b_theta_bar,
               rho_grid := deposit_plasma_particles ext xi (pp_r pp) w_rho (env_xi_min env) r_first
                  (env_n_xi env) (env_n_r env) (env_dxi env) (env_dr env) (rho_grid st)
                  (env_p_shape env),
               chi_grid := deposit_plasma_particles ext xi (pp_r pp) w_chi (env_xi_min env) r_first
                  (env_n_xi env) (env_n_r env) (env_dxi env) (env_dr env) (chi_grid st)
                  (env_p_shape env)\<rparr>"
    by (rule slice_fields_Inr)
  have g: "psi_grid st' = psi" "b_theta_bar_grid st' = b_theta_bar"
    "W_r_grid st' = W_r_grid st" "E_z_grid st' = E_z_grid st"
    using rest st1 by auto
  show "map length (psi_grid st') = map length (psi_grid st)"
    using set_row_interior_lengths [OF p] g by simp
  show "map length (b_theta_bar_grid st') = map length (b_theta_bar_grid st)"
    using set_row_interior_lengths [OF b] g by simp
  show "W_r_grid st' = W_r_grid st" "E_z_grid st' = E_z_grid st" by (rule g)+
qed

lemma for_each_slice_step_grids:
  assumes "for_each (slice_step ext env) steps st = Inr st'"
  shows "map length (psi_grid st') = map length (psi_grid st) \<and>
    map length (b_theta_bar_grid st') = map length (b_theta_bar_grid st) \<and>
    W_r_grid st' = W_r_grid st \<and> E_z_grid st' = E_z_grid st"
  using assms
proof (induction steps arbitrary: st)
  case Nil
  then show ?case by simp
next
  case (Cons step steps)
  from Cons.prems obtain st1 where one: "slice_step ext env step st = Inr st1"
    and rest: "for_each (slice_step ext env) steps st1 = Inr st'"
    by (auto split: sum.splits)
  show ?case
    using Cons.IH [OF rest] slice_step_grids [OF one] by simp
qed

lemma main_loop_grids:
  assumes "main_loop ext env st = Inr st'"
  shows "map length (psi_grid st') = map length (psi_grid st)"
    "map length (b_theta_bar_grid st') = map length (b_theta_bar_grid st)"
    "W_r_grid st' = W_r_grid st" "E_z_grid st' = E_z_grid st"
  using for_each_slice_step_grids [OF assms [unfolded main_loop_def]] by simp_all

lemma beam_field_from_charge_lengths:
  assumes "beam_field_from_charge n_r n_xi dr q_dist = Inr b"
  shows "\<exists>zeros. np_zeros2 (n_xi + 4) (n_r + 4) = Inr zeros \<and> map length b = map length zeros"
proof -
  from assms obtain zeros field where z: "np_zeros2 (n_xi + 4) (n_r + 4) = Inr zeros"
    and s: "set_interior zeros field = Inr b"
    by (auto simp: beam_field_from_charge_def Let_def bind_err_Inr_iff)
  show ?thesis using z set_interior_lengths [OF s] by blast
qed

text \<open>What a set-up that completes leaves for the main loop.\<close>

lemma wakefield_setup_Inr:
  assumes "wakefield_setup ext laser_a2 beam_part r_max xi_min xi_max n_r n_xi ppc n_p r_max_plasma
             parabolic_coefficient p_shape max_gamma plasma_pusher = Inr (env, st)"
  shows "1 \<le> n_r" "1 \<le> n_xi"
    "has_shape (psi_grid st) (nat n_xi + 4) (nat n_r + 4)"
    "has_shape (E_z_grid st) (nat n_xi + 4) (nat n_r + 4)"
    "has_shape (W_r_grid st) (nat n_xi + 4) (nat n_r + 4)"
    "has_shape (b_theta_bar_grid st) (nat n_xi + 4) (nat n_r + 4)"
    "has_shape (env_b_theta_0_mesh env) (nat n_xi + 4) (nat n_r + 4)"
proof -
  have "\<not> isl (wakefield_setup ext laser_a2 beam_part r_max xi_min xi_max n_r n_xi ppc n_p
                 r_max_plasma parabolic_coefficient p_shape max_gamma plasma_pusher)"
    by (simp add: assms)
  then have pos: "\<not> (n_r \<le> 0 \<or> n_xi \<le> 0)"
    using setup_fails_without_cells by blast
  then show n: "1 \<le> n_r" "1 \<le> n_xi" by linarith+
  let ?z = "replicate (nat n_xi + 4) (replicate (nat n_r + 4) (0::real))"
  have z: "np_zeros2 (n_xi + 4) (n_r + 4) = Inr ?z" "has_shape ?z (nat n_xi + 4) (nat n_r + 4)"
    using np_zeros2_shape [of n_xi n_r] n by simp_all
  obtain x y xi q where bp: "beam_part = (x, y, xi, q)" by (cases beam_part) auto
  from assms obtain r_first xi_first dr dxi b where
    grids: "psi_grid st = ?z" "E_z_grid st = ?z" "W_r_grid st = ?z" "b_theta_bar_grid st = ?z"
    and mesh: "env_b_theta_0_mesh env = b"
    and b: "calculate_beam_source_from_particles ext x y xi q n_p n_r n_xi r_first xi_first dr dxi
              p_shape = Inr b"
    unfolding wakefield_setup_def Let_def bp
    by (auto simp: z(1) bind_err_Inr_iff)
  from b obtain q_dist where "beam_field_from_charge n_r n_xi dr q_dist = Inr b"
    by (auto simp: calculate_beam_source_from_particles_def bind_err_Inr_iff)
  then have "map length b = map length ?z"
    using beam_field_from_charge_lengths z(1) by fastforce
  then have "has_shape b (nat n_xi + 4) (nat n_r + 4)"
    by (rule has_shape_same_lengths [OF z(2)])
  then show "has_shape (env_b_theta_0_mesh env) (nat n_xi + 4) (nat n_r + 4)"
    by (simp add: mesh)
  show "has_shape (psi_grid st) (nat n_xi + 4) (nat n_r + 4)"
    "has_shape (E_z_grid st) (nat n_xi + 4) (nat n_r + 4)"
    "has_shape (W_r_grid st) (nat n_xi + 4) (nat n_r + 4)"
    "has_shape (b_theta_bar_grid st) (nat n_xi + 4) (nat n_r + 4)"
    using z(2) by (simp_all add: grids)
qed

lemma wakefield_setup_spacing:
  assumes "wakefield_setup ext laser_a2 beam_part r_max xi_min xi_max n_r n_xi ppc n_p r_max_plasma
             parabolic_coefficient p_shape max_gamma plasma_pusher = Inr (env, st)"
  shows "env_dr env = r_max / plasma_skin_depth ext (n_p * (1 / 1000000)) / real_of_int n_r"
    "env_dxi env = (xi_max / plasma_skin_depth ext (n_p * (1 / 1000000))
                    - xi_min / plasma_skin_depth ext (n_p * (1 / 1000000))) / real_of_int (n_xi - 1)"
  using assms unfolding wakefield_setup_def Let_def
  by (auto simp: bind_err_Inr_iff)

text \<open>
  Claim C6, as amended. When the set-up and the sweep of a call of \<open>calculate_wakefields\<close>
  have completed, with \<open>st\<close> the state the sweep leaves, then: if \<open>n_xi >= 3\<close> and
  \<open>n_r >= 3\<close>, the call returns exactly the five grids \<open>rho\<close>, \<open>chi\<close>, \<open>E_r\<close>, \<open>E_z\<close>, \<open>B_theta\<close>
  and the two coordinate arrays; the interior of \<open>E_z\<close> is minus the gradient of the interior
  of the \<open>psi\<close> grid of \<open>st\<close> along the slices, at spacing \<open>dxi\<close>, and the interior of \<open>W_r\<close> is
  minus its gradient along the radius, at spacing \<open>dr\<close>, both as \<open>np.gradient\<close> with
  \<open>edge_order=2\<close> computes them (central differences, one-sided second-order formulas in the
  first and last cell); \<open>B_theta = b_theta_bar + b_theta_0_mesh\<close> and \<open>E_r = W_r + B_theta\<close>
  cell by cell, guard cells included. If \<open>n_xi < 3\<close> or \<open>n_r < 3\<close>, nothing is returned: the
  call fails after the sweep with the \<open>ValueError\<close> of \<open>np.gradient\<close>.
\<close>

theorem calculate_wakefields_derived_fields:
  assumes init: "wakefield_setup ext laser_a2 beam_part r_max xi_min xi_max n_r n_xi ppc n_p
             r_max_plasma parabolic_coefficient p_shape max_gamma plasma_pusher = Inr (env, st0)"
    and sweep: "main_loop ext env st0 = Inr st"
  shows "(3 \<le> n_xi \<and> 3 \<le> n_r \<longrightarrow>
      (\<exists>E_r E_z B_theta W_r.
         calculate_wakefields ext laser_a2 beam_part r_max xi_min xi_max n_r n_xi ppc n_p
             r_max_plasma parabolic_coefficient p_shape max_gamma plasma_pusher
           = Inr (rho_grid st, chi_grid st, E_r, E_z, B_theta, env_xi_fld env, env_r_fld env) \<and>
         derived_W_r env st = Inr W_r \<and>
         (\<forall>j < nat n_xi. \<forall>k < nat n_r.
            E_z ! (j + 2) ! (k + 2)
              = - gradient_at (env_dxi env) (\<lambda>a. psi_grid st ! (a + 2) ! (k + 2)) (nat n_xi) j \<and>
            W_r ! (j + 2) ! (k + 2)
              = - gradient_at (env_dr env) (\<lambda>b. psi_grid st ! (j + 2) ! (b + 2)) (nat n_r) k) \<and>
         (\<forall>j < nat n_xi + 4. \<forall>k < nat n_r + 4.
            B_theta ! j ! k = b_theta_bar_grid st ! j ! k + env_b_theta_0_mesh env ! j ! k \<and>
            E_r ! j ! k = W_r ! j ! k + B_theta ! j ! k))) \<and>
     (n_xi < 3 \<or> n_r < 3 \<longrightarrow>
        calculate_wakefields ext laser_a2 beam_part r_max xi_min xi_max n_r n_xi ppc n_p
            r_max_plasma parabolic_coefficient p_shape max_gamma plasma_pusher
          = Inl (ValueError ''Shape of array too small to calculate a numerical gradient, at least (edge_order + 1) elements are required.'')) \<and>
     env_dxi env = (xi_max / plasma_skin_depth ext (n_p * (1 / 1000000))
                    - xi_min / plasma_skin_depth ext (n_p * (1 / 1000000))) / real_of_int (n_xi - 1) \<and>
     env_dr env = r_max / plasma_skin_depth ext (n_p * (1 / 1000000)) / real_of_int n_r"
proof -
  let ?m = "nat n_xi" and ?n = "nat n_r"
  note s0 = wakefield_setup_Inr [OF init]
  note g = main_loop_grids [OF sweep]
  have sh: "has_shape (psi_grid st) (?m + 4) (?n + 4)" "has_shape (E_z_grid st) (?m + 4) (?n + 4)"
    "has_shape (W_r_grid st) (?m + 4) (?n + 4)" "has_shape (b_theta_bar_grid st) (?m + 4) (?n + 4)"
    using s0(3-6) g has_shape_same_lengths by simp_all
  have run: "calculate_wakefields ext laser_a2 beam_part r_max xi_min xi_max n_r n_xi ppc n_p
             r_max_plasma parabolic_coefficient p_shape max_gamma plasma_pusher = derived_fields env st"
    by (simp add: calculate_wakefields_def init sweep)
  have large: "\<exists>E_r E_z B_theta W_r.
         derived_fields env st
           = Inr (rho_grid st, chi_grid st, E_r, E_z, B_theta, env_xi_fld env, env_r_fld env) \<and>
         derived_W_r env st = Inr W_r \<and>
         (\<forall>j < ?m. \<forall>k < ?n.
            E_z ! (j + 2) ! (k + 2)
              = - gradient_at (env_dxi env) (\<lambda>a. psi_grid st ! (a + 2) ! (k + 2)) ?m j \<and>
            W_r ! (j + 2) ! (k + 2)
              = - gradient_at (env_dr env) (\<lambda>b. psi_grid st ! (j + 2) ! (b + 2)) ?n k) \<and>
         (\<forall>j < ?m + 4. \<forall>k < ?n + 4.
            B_theta ! j ! k = b_theta_bar_grid st ! j ! k + env_b_theta_0_mesh env ! j ! k \<and>
            E_r ! j ! k = W_r ! j ! k + B_theta ! j ! k)"
    if "3 \<le> n_xi \<and> 3 \<le> n_r"
  proof -
    have "3 \<le> ?m" "3 \<le> ?n" using that by linarith+
    then show ?thesis by (rule derived_fields_values [OF _ _ sh s0(7)])
  qed
  have small: "derived_fields env st = Inl (ValueError ''Shape of array too small to calculate a numerical gradient, at least (edge_order + 1) elements are required.'')"
    if "n_xi < 3 \<or> n_r < 3"
  proof -
    have "1 \<le> ?m" "1 \<le> ?n" "?m < 3 \<or> ?n < 3" using that s0(1,2) by linarith+
    then show ?thesis by (rule derived_fields_too_small [OF sh(1)])
  qed
  show ?thesis
    unfolding run using large small wakefield_setup_spacing [OF init] by blast
qed

lemma radial_setup_3:
  "wakefield_setup radial_potential_externals [[0, 0, 0], [0, 0, 0], [0, 0, 0]] ([], [], [], []) 3 0 2 3 3
      2 1 None 0 ''cubic'' 10 ''rk4''
     = Inr (three_cell_env 3 ''rk4'',
            (zero_grids_state 3)\<lparr>particles := two_particles_at_rest\<lparr>pp_r_max_plasma := 3\<rparr>\<rparr>)"
  by code_simp

lemma radial_sweep_3:
  "main_loop radial_potential_externals (three_cell_env 3 ''rk4'')
      ((zero_grids_state 3)\<lparr>particles := two_particles_at_rest\<lparr>pp_r_max_plasma := 3\<rparr>\<rparr>)
     = Inr (radial_potential_state 3)"
  by code_simp

lemma radial_setup_2:
  "wakefield_setup radial_potential_externals [[0, 0, 0], [0, 0, 0]] ([], [], [], []) 3 0 1 3 2
      2 1 None 0 ''cubic'' 10 ''rk4''
     = Inr (three_cell_env 2 ''rk4'',
            (zero_grids_state 2)\<lparr>particles := two_particles_at_rest\<lparr>pp_r_max_plasma := 3\<rparr>\<rparr>)"
  by code_simp

lemma radial_sweep_2:
  "main_loop radial_potential_externals (three_cell_env 2 ''rk4'')
      ((zero_grids_state 2)\<lparr>particles := two_particles_at_rest\<lparr>pp_r_max_plasma := 3\<rparr>\<rparr>)
     = Inr (radial_potential_state 2)"
  by code_simp

theorem calculate_wakefields_derived_fields_witness:
  "wakefield_setup radial_potential_externals [[0, 0, 0], [0, 0, 0], [0, 0, 0]] ([], [], [], []) 3 0 2 3 3
      2 1 None 0 ''cubic'' 10 ''rk4''
     = Inr (three_cell_env 3 ''rk4'',
            (zero_grids_state 3)\<lparr>particles := two_particles_at_rest\<lparr>pp_r_max_plasma := 3\<rparr>\<rparr>) \<and>
   main_loop radial_potential_externals (three_cell_env 3 ''rk4'')
      ((zero_grids_state 3)\<lparr>particles := two_particles_at_rest\<lparr>pp_r_max_plasma := 3\<rparr>\<rparr>)
     = Inr (radial_potential_state 3) \<and>
   (\<exists>E_r E_z B_theta.
      calculate_wakefields radial_potential_externals [[0, 0, 0], [0, 0, 0], [0, 0, 0]] ([], [], [], [])
          3 0 2 3 3 2 1 None 0 ''cubic'' 10 ''rk4''
        = Inr (replicate 7 (replicate 7 0), replicate 7 (replicate 7 0), E_r, E_z, B_theta,
               [0, 1, 2], [1/2, 3/2, 5/2]) \<and>
      E_z ! 2 ! 2 = 0 \<and> E_r ! 2 ! 2 = - 1 \<and> E_r ! 2 ! 3 = - 3 \<and> E_r ! 4 ! 4 = - 5 \<and>
      B_theta ! 2 ! 3 = 0) \<and>
   wakefield_setup radial_potential_externals [[0, 0, 0], [0, 0, 0]] ([], [], [], []) 3 0 1 3 2
      2 1 None 0 ''cubic'' 10 ''rk4''
     = Inr (three_cell_env 2 ''rk4'',
            (zero_grids_state 2)\<lparr>particles := two_particles_at_rest\<lparr>pp_r_max_plasma := 3\<rparr>\<rparr>) \<and>
   main_loop radial_potential_externals (three_cell_env 2 ''rk4'')
      ((zero_grids_state 2)\<lparr>particles := two_particles_at_rest\<lparr>pp_r_max_plasma := 3\<rparr>\<rparr>)
     = Inr (radial_potential_state 2) \<and>
   calculate_wakefields radial_potential_externals [[0, 0, 0], [0, 0, 0]] ([], [], [], [])
       3 0 1 3 2 2 1 None 0 ''cubic'' 10 ''rk4''
     = Inl (ValueError ''Shape of array too small to calculate a numerical gradient, at least (edge_order + 1) elements are required.'')"
proof -
  let ?env = "three_cell_env 3 ''rk4''" and ?st = "radial_potential_state 3"
  have psi: "psi_grid ?st =
        [[0, 0, 0, 0, 0, 0, 0], [0, 0, 0, 0, 0, 0, 0], [0, 0, 1/4, 9/4, 25/4, 0, 0],
         [0, 0, 1/4, 9/4, 25/4, 0, 0], [0, 0, 1/4, 9/4, 25/4, 0, 0], [0, 0, 0, 0, 0, 0, 0],
         [0, 0, 0, 0, 0, 0, 0]]"
    and h: "env_dxi ?env = 1" "env_dr ?env = 1"
    and c: "env_xi_fld ?env = [0, 1, 2]" "env_r_fld ?env = [1/2, 3/2, 5/2]"
      "rho_grid ?st = replicate 7 (replicate 7 0)" "chi_grid ?st = replicate 7 (replicate 7 0)"
    and z: "b_theta_bar_grid ?st = replicate 7 (replicate 7 0)"
      "env_b_theta_0_mesh ?env = replicate 7 (replicate 7 0)"
    by (simp_all add: radial_potential_state_def zero_grids_state_def three_cell_env_def
        eval_nat_numeral)
  have le: "(3 :: int) \<le> 3 \<and> (3 :: int) \<le> 3" by simp
  from calculate_wakefields_derived_fields [OF radial_setup_3 radial_sweep_3, THEN conjunct1,
      rule_format, OF le]
  obtain E_r E_z B_theta W_r where
    run: "calculate_wakefields radial_potential_externals [[0, 0, 0], [0, 0, 0], [0, 0, 0]]
            ([], [], [], []) 3 0 2 3 3 2 1 None 0 ''cubic'' 10 ''rk4''
        = Inr (rho_grid ?st, chi_grid ?st, E_r, E_z, B_theta, env_xi_fld ?env, env_r_fld ?env)"
    and inner: "\<forall>j < nat 3. \<forall>k < nat 3.
        E_z ! (j + 2) ! (k + 2)
          = - gradient_at (env_dxi ?env) (\<lambda>a. psi_grid ?st ! (a + 2) ! (k + 2)) (nat 3) j \<and>
        W_r ! (j + 2) ! (k + 2)
          = - gradient_at (env_dr ?env) (\<lambda>b. psi_grid ?st ! (j + 2) ! (b + 2)) (nat 3) k"
    and sums: "\<forall>j < nat 3 + 4. \<forall>k < nat 3 + 4.
        B_theta ! j ! k = b_theta_bar_grid ?st ! j ! k + env_b_theta_0_mesh ?env ! j ! k \<and>
        E_r ! j ! k = W_r ! j ! k + B_theta ! j ! k"
    by blast
  have b: "B_theta ! 2 ! 2 = 0" "B_theta ! 2 ! 3 = 0" "B_theta ! 4 ! 4 = 0"
    using sums [rule_format, of 2 2] sums [rule_format, of 2 3] sums [rule_format, of 4 4]
    by (simp_all add: z)
  have "E_z ! (0 + 2) ! (0 + 2) = 0"
    using inner [rule_format, of 0 0] by (simp add: psi h gradient_at_def)
  moreover have "W_r ! (0 + 2) ! (0 + 2) = - 1"
    using inner [rule_format, of 0 0] by (simp add: psi h gradient_at_def)
  moreover have "W_r ! (0 + 2) ! (1 + 2) = - 3"
    using inner [rule_format, of 0 1] by (simp add: psi h gradient_at_def)
  moreover have "W_r ! (2 + 2) ! (2 + 2) = - 5"
    using inner [rule_format, of 2 2] by (simp add: psi h gradient_at_def)
  moreover have "E_r ! 2 ! 2 = W_r ! 2 ! 2 + B_theta ! 2 ! 2"
    "E_r ! 2 ! 3 = W_r ! 2 ! 3 + B_theta ! 2 ! 3" "E_r ! 4 ! 4 = W_r ! 4 ! 4 + B_theta ! 4 ! 4"
    using sums [rule_format, of 2 2] sums [rule_format, of 2 3] sums [rule_format, of 4 4]
    by simp_all
  ultimately have v: "E_z ! 2 ! 2 = 0 \<and> E_r ! 2 ! 2 = - 1 \<and> E_r ! 2 ! 3 = - 3 \<and> E_r ! 4 ! 4 = - 5 \<and>
      B_theta ! 2 ! 3 = 0"
    using b by (simp add: eval_nat_numeral)
  have large: "\<exists>E_r E_z B_theta.
      calculate_wakefields radial_potential_externals [[0, 0, 0], [0, 0, 0], [0, 0, 0]] ([], [], [], [])
          3 0 2 3 3 2 1 None 0 ''cubic'' 10 ''rk4''
        = Inr (replicate 7 (replicate 7 0), replicate 7 (replicate 7 0), E_r, E_z, B_theta,
               [0, 1, 2], [1/2, 3/2, 5/2]) \<and>
      E_z ! 2 ! 2 = 0 \<and> E_r ! 2 ! 2 = - 1 \<and> E_r ! 2 ! 3 = - 3 \<and> E_r ! 4 ! 4 = - 5 \<and>
      B_theta ! 2 ! 3 = 0"
    using run v unfolding c by blast
  have small: "calculate_wakefields radial_potential_externals [[0, 0, 0], [0, 0, 0]] ([], [], [], [])
       3 0 1 3 2 2 1 None 0 ''cubic'' 10 ''rk4''
     = Inl (ValueError ''Shape of array too small to calculate a numerical gradient, at least (edge_order + 1) elements are required.'')"
    using calculate_wakefields_derived_fields [OF radial_setup_2 radial_sweep_2] by simp
  show ?thesis
    using radial_setup_3 radial_sweep_3 large radial_setup_2 radial_sweep_2 small
    by (intro conjI)
qed

text \<open>
  Claim C6 as stated fails: on a grid of two slices the set-up and the sweep complete, and
  the call returns no grid, it fails in \<open>np.gradient\<close>.
\<close>

theorem no_derived_fields_for_two_slices:
  "wakefield_setup (uniform_externals 0 0) [[0, 0, 0], [0, 0, 0]] ([], [], [], []) 3 0 1 3 2
      2 1 None 0 ''cubic'' 10 ''rk4''
     = Inr (three_cell_env 2 ''rk4'',
            (zero_grids_state 2)\<lparr>particles := two_particles_at_rest\<lparr>pp_r_max_plasma := 3\<rparr>\<rparr>) \<and>
   main_loop (uniform_externals 0 0) (three_cell_env 2 ''rk4'')
      ((zero_grids_state 2)\<lparr>particles := two_particles_at_rest\<lparr>pp_r_max_plasma := 3\<rparr>\<rparr>)
     = Inr ((zero_grids_state 2)\<lparr>particles := two_particles_at_rest\<lparr>pp_r_max_plasma := 3\<rparr>\<rparr>) \<and>
   calculate_wakefields (uniform_externals 0 0) [[0, 0, 0], [0, 0, 0]] ([], [], [], [])
       3 0 1 3 2 2 1 None 0 ''cubic'' 10 ''rk4''
     = Inl (ValueError ''Shape of array too small to calculate a numerical gradient, at least (edge_order + 1) elements are required.'')"
  by code_simp

end
